theory Spec2Isabelle
  imports Complex_Main "HOL-Library.Monad_Syntax"
begin

section \<open>Scalars, failures and the numeric toolbox\<close>

text \<open>
  The template parameter \<open>Scalar\<close> (and \<open>Evaluation\<close>, instantiated with the same
  type) is modelled by the real numbers: rounding is abstracted away. What a call can
  do besides returning a number is kept apart in two layers.

  \<^item> A failure stops the call: \<open>EnsureFinalized::check()\<close> throws on a store that was
    not finalized, and \<open>assert\<close> aborts on a saturation outside \<open>[0, 1]\<close>. A function
    that can fail returns \<open>error + 'a\<close>, with \<open>Inl\<close> the failure.
  \<^item> An arithmetic operation without a value in the reals (a division by zero, a zero
    base with a negative exponent) does not stop the C++: it yields an infinity or a
    NaN that flows on through the expression. A computed scalar is a \<open>real option\<close>,
    \<open>None\<close> standing for a result that exact real arithmetic does not define. The
    special values are not followed further: \<open>None\<close> is absorbing in all later
    arithmetic, also where the C++ would come back to a finite number (a quotient by
    an infinity, 1 raised to an infinite exponent when \<open>\<lambda> = 0\<close>).

  Coefficients and inputs are finite: they are reals.
\<close>

datatype error = NotFinalized | AssertionFailed

type_synonym scalar = "real option"

definition bind_result :: "error + 'a \<Rightarrow> ('a \<Rightarrow> error + 'b) \<Rightarrow> error + 'b" where
  "bind_result m f = (case m of Inl e \<Rightarrow> Inl e | Inr x \<Rightarrow> f x)"

text \<open>The quotient \<open>a / b\<close> of two finite scalars.\<close>

definition fdiv :: "real \<Rightarrow> real \<Rightarrow> scalar" where
  "fdiv a b = (if b = 0 then None else Some (a / b))"

text \<open>
  Modelled from the spec: \<open>Opm::pow\<close> and \<open>Opm::min\<close> of \<open>MathToolbox.hpp\<close> are not
  among the sources; the spec asks of the numeric type only that it supports \<open>pow\<close>
  and \<open>min\<close>, which for a plain scalar are those of the C++ standard library.
  \<open>pow x y\<close>: a positive base is raised to any exponent; a zero base gives 1 for
  exponent 0, 0 for a positive exponent and has no real value for a negative one;
  a negative base has a value for an integral exponent only. \<open>Opm::min\<close> is \<open>min\<close>.
\<close>

definition pow :: "real \<Rightarrow> real \<Rightarrow> scalar" where
  "pow x y =
     (if 0 < x then Some (x powr y)
      else if x = 0 then (if y = 0 then Some 1 else if 0 < y then Some 0 else None)
      else if y \<in> \<int> then Some (x powi \<lfloor>y\<rfloor>)
      else None)"

section \<open>The parameter stores\<close>

text \<open>
  Modelled from the spec: \<open>EnsureFinalized\<close> (\<open>EnsureFinalized.hpp\<close>) is not among
  the sources. By the spec, \<open>finalize()\<close> marks the object ready for reads and each
  guarded accessor first checks that finalize has been called, failing fatally if
  not: a flag, set by \<open>finalize\<close>, tested by \<open>check\<close>.

  The C++ fields end in an underscore, which Isabelle does not take at the end of a
  name; they end in a prime here. The default constructor leaves the coefficients
  indeterminate: its argument is the content of the memory it is given, of which it
  only clears the flag.
\<close>

record DynamicWaParams =
  finalized' :: bool
  entryPressure' :: real
  finalEntryPressure' :: real
  lambda' :: real
  llambda' :: real
  beta' :: real
  eta' :: real
  ei' :: real
  ef' :: real

definition DynamicWaParams_default :: "'a DynamicWaParams_scheme \<Rightarrow> 'a DynamicWaParams_scheme" where
  "DynamicWaParams_default mem = mem\<lparr>finalized' := False\<rparr>"

text \<open>
  Modelled from the spec: \<open>EnsureFinalized::check\<close> and \<open>EnsureFinalized::finalize\<close>,
  which \<open>DynamicWaParams\<close> inherits (\<open>using EnsureFinalized::finalize\<close>).
\<close>

definition check :: "'a DynamicWaParams_scheme \<Rightarrow> error + unit" where
  "check p = (if finalized' p then Inr () else Inl NotFinalized)"

definition DynamicWaParams_finalize :: "'a DynamicWaParams_scheme \<Rightarrow> 'a DynamicWaParams_scheme" where
  "DynamicWaParams_finalize p = p\<lparr>finalized' := True\<rparr>"

definition entryPressure :: "'a DynamicWaParams_scheme \<Rightarrow> error + real" where
  "entryPressure p = bind_result (check p) (\<lambda>_. Inr (entryPressure' p))"

definition setEntryPressure :: "real \<Rightarrow> 'a DynamicWaParams_scheme \<Rightarrow> 'a DynamicWaParams_scheme" where
  "setEntryPressure v p = p\<lparr>entryPressure' := v\<rparr>"

definition finalEntryPressure :: "'a DynamicWaParams_scheme \<Rightarrow> error + real" where
  "finalEntryPressure p = bind_result (check p) (\<lambda>_. Inr (finalEntryPressure' p))"

definition setFinalEntryPressure :: "real \<Rightarrow> 'a DynamicWaParams_scheme \<Rightarrow> 'a DynamicWaParams_scheme" where
  "setFinalEntryPressure v p = p\<lparr>finalEntryPressure' := v\<rparr>"

definition beta :: "'a DynamicWaParams_scheme \<Rightarrow> real" where
  "beta p = beta' p"

definition setBeta :: "real \<Rightarrow> 'a DynamicWaParams_scheme \<Rightarrow> 'a DynamicWaParams_scheme" where
  "setBeta v p = p\<lparr>beta' := v\<rparr>"

definition eta :: "'a DynamicWaParams_scheme \<Rightarrow> real" where
  "eta p = eta' p"

definition setEta :: "real \<Rightarrow> 'a DynamicWaParams_scheme \<Rightarrow> 'a DynamicWaParams_scheme" where
  "setEta v p = p\<lparr>eta' := v\<rparr>"

definition ei :: "'a DynamicWaParams_scheme \<Rightarrow> real" where
  "ei p = ei' p"

definition setEi :: "real \<Rightarrow> 'a DynamicWaParams_scheme \<Rightarrow> 'a DynamicWaParams_scheme" where
  "setEi v p = p\<lparr>ei' := v\<rparr>"

definition ef :: "'a DynamicWaParams_scheme \<Rightarrow> real" where
  "ef p = ef' p"

definition setEf :: "real \<Rightarrow> 'a DynamicWaParams_scheme \<Rightarrow> 'a DynamicWaParams_scheme" where
  "setEf v p = p\<lparr>ef' := v\<rparr>"

definition lambda :: "'a DynamicWaParams_scheme \<Rightarrow> error + real" where
  "lambda p = bind_result (check p) (\<lambda>_. Inr (lambda' p))"

definition setLambda :: "real \<Rightarrow> 'a DynamicWaParams_scheme \<Rightarrow> 'a DynamicWaParams_scheme" where
  "setLambda v p = p\<lparr>lambda' := v\<rparr>"

definition llambda :: "'a DynamicWaParams_scheme \<Rightarrow> error + real" where
  "llambda p = bind_result (check p) (\<lambda>_. Inr (llambda' p))"

definition setLlambda :: "real \<Rightarrow> 'a DynamicWaParams_scheme \<Rightarrow> 'a DynamicWaParams_scheme" where
  "setLlambda v p = p\<lparr>llambda' := v\<rparr>"

section \<open>The raw curves (DynamicWa)\<close>

text \<open>
  \<open>twoPhaseSatPcnw\<close>: the assertion, then the three guarded reads, then
  \<open>(1.0 + (pf/pe - 1.0) * (Sw*Wa) / (beta + Sw*Wa)) * pe * pow(Sw, -1/lambda)\<close>.
\<close>

definition DynamicWa_twoPhaseSatPcnw ::
  "'a DynamicWaParams_scheme \<Rightarrow> real \<Rightarrow> real \<Rightarrow> error + scalar" where
  "DynamicWa_twoPhaseSatPcnw params Sw Wa =
     (if \<not> (0 \<le> Sw \<and> Sw \<le> 1) then Inl AssertionFailed
      else
        bind_result (finalEntryPressure params) (\<lambda>pf.
        bind_result (entryPressure params) (\<lambda>pe.
        bind_result (lambda params) (\<lambda>lam.
          Inr (do {
            q \<leftarrow> fdiv pf pe;
            r \<leftarrow> fdiv ((q - 1) * (Sw * Wa)) (beta params + Sw * Wa);
            e \<leftarrow> fdiv (- 1) lam;
            w \<leftarrow> pow Sw e;
            Some ((1 + r) * pe * w)
          })))))"

definition DynamicWa_twoPhaseSatKrw ::
  "'a DynamicWaParams_scheme \<Rightarrow> real \<Rightarrow> real \<Rightarrow> error + scalar" where
  "DynamicWa_twoPhaseSatKrw params Sw Wa =
     (if \<not> (0 \<le> Sw \<and> Sw \<le> 1) then Inl AssertionFailed
      else
        bind_result (llambda params) (\<lambda>ll.
          Inr (do {
            w \<leftarrow> pow Sw ll;
            fdiv (min (eta params * Wa + ei params) (ef params) * w)
                 (1 - Sw + min (eta params * Wa + ei params) (ef params) * w)
          })))"

definition DynamicWa_twoPhaseSatKrn ::
  "'a DynamicWaParams_scheme \<Rightarrow> real \<Rightarrow> real \<Rightarrow> error + scalar" where
  "DynamicWa_twoPhaseSatKrn params Sw Wa =
     (if \<not> (0 \<le> Sw \<and> Sw \<le> 1) then Inl AssertionFailed
      else
        bind_result (llambda params) (\<lambda>ll.
          Inr (do {
            w \<leftarrow> pow Sw ll;
            fdiv (1 - Sw)
                 (1 - Sw + min (eta params * Wa + ei params) (ef params) * w)
          })))"

section \<open>The regularized parameter store\<close>

record RegularizedDynamicWaParams = DynamicWaParams +
  pcnwLowSw' :: real
  pcnwLow' :: scalar
  pcnwSlopeLow' :: scalar
  pcnwHigh' :: scalar
  pcnwSlopeHigh' :: scalar

text \<open>The default constructor: that of the base class, then the threshold 0.01.\<close>

definition RegularizedDynamicWaParams_default ::
  "'a RegularizedDynamicWaParams_scheme \<Rightarrow> 'a RegularizedDynamicWaParams_scheme" where
  "RegularizedDynamicWaParams_default mem = (DynamicWaParams_default mem)\<lparr>pcnwLowSw' := 1 / 100\<rparr>"

definition eps :: real where
  "eps = 1 / 10 ^ 7"

text \<open>
  \<open>dPcnw_dSw_\<close>: the finite difference of the raw curve at dynamic variable 0; each
  side steps by \<open>eps\<close> only where the step stays inside \<open>(0, 1)\<close>, and \<open>delta\<close>
  collects the steps taken.
\<close>

definition dPcnw_dSw :: "'a RegularizedDynamicWaParams_scheme \<Rightarrow> real \<Rightarrow> error + scalar" where
  "dPcnw_dSw p Sw =
     (let delta0 = 0; wa = 0 in
      bind_result (if Sw + eps < 1 then DynamicWa_twoPhaseSatPcnw p (Sw + eps) wa
                   else DynamicWa_twoPhaseSatPcnw p Sw wa) (\<lambda>pc2.
      let delta1 = (if Sw + eps < 1 then delta0 + eps else delta0) in
      bind_result (if Sw - eps > 0 then DynamicWa_twoPhaseSatPcnw p (Sw - eps) wa
                   else DynamicWa_twoPhaseSatPcnw p Sw wa) (\<lambda>pc1.
      let delta = (if Sw - eps > 0 then delta1 + eps else delta1) in
      Inr (do { a \<leftarrow> pc2; b \<leftarrow> pc1; fdiv (a - b) delta }))))"

definition RegularizedDynamicWaParams_finalize ::
  "'a RegularizedDynamicWaParams_scheme \<Rightarrow> error + 'a RegularizedDynamicWaParams_scheme" where
  "RegularizedDynamicWaParams_finalize p0 =
     (let p1 = DynamicWaParams_finalize p0 in
      bind_result (DynamicWa_twoPhaseSatPcnw p1 (pcnwLowSw' p1) 0) (\<lambda>low.
      let p2 = p1\<lparr>pcnwLow' := low\<rparr> in
      bind_result (dPcnw_dSw p2 (pcnwLowSw' p2)) (\<lambda>slopeLow.
      let p3 = p2\<lparr>pcnwSlopeLow' := slopeLow\<rparr> in
      bind_result (DynamicWa_twoPhaseSatPcnw p3 1 0) (\<lambda>high.
      let p4 = p3\<lparr>pcnwHigh' := high\<rparr> in
      bind_result (dPcnw_dSw p4 1) (\<lambda>slopeHigh.
      Inr (p4\<lparr>pcnwSlopeHigh' := slopeHigh\<rparr>))))))"

definition pcnwLowSw :: "'a RegularizedDynamicWaParams_scheme \<Rightarrow> error + real" where
  "pcnwLowSw p = bind_result (check p) (\<lambda>_. Inr (pcnwLowSw' p))"

definition pcnwLow :: "'a RegularizedDynamicWaParams_scheme \<Rightarrow> error + scalar" where
  "pcnwLow p = bind_result (check p) (\<lambda>_. Inr (pcnwLow' p))"

definition pcnwSlopeLow :: "'a RegularizedDynamicWaParams_scheme \<Rightarrow> error + scalar" where
  "pcnwSlopeLow p = bind_result (check p) (\<lambda>_. Inr (pcnwSlopeLow' p))"

definition setPcLowSw ::
  "real \<Rightarrow> 'a RegularizedDynamicWaParams_scheme \<Rightarrow> 'a RegularizedDynamicWaParams_scheme" where
  "setPcLowSw v p = p\<lparr>pcnwLowSw' := v\<rparr>"

definition pcnwHigh :: "'a RegularizedDynamicWaParams_scheme \<Rightarrow> error + scalar" where
  "pcnwHigh p = bind_result (check p) (\<lambda>_. Inr (pcnwHigh' p))"

definition pcnwSlopeHigh :: "'a RegularizedDynamicWaParams_scheme \<Rightarrow> error + scalar" where
  "pcnwSlopeHigh p = bind_result (check p) (\<lambda>_. Inr (pcnwSlopeHigh' p))"

section \<open>The regularized curves (RegularizedDynamicWa)\<close>

text \<open>
  \<open>twoPhaseSatPcnw\<close>: below the threshold and from 1 on, a straight line through
  the raw curve's value with a finite-difference slope, both taken from the raw
  curve at the \<open>Wa\<close> of the call; in between, the raw curve.
\<close>

definition RegularizedDynamicWa_twoPhaseSatPcnw ::
  "'a RegularizedDynamicWaParams_scheme \<Rightarrow> real \<Rightarrow> real \<Rightarrow> error + scalar" where
  "RegularizedDynamicWa_twoPhaseSatPcnw params Sw Wa =
     bind_result (pcnwLowSw params) (\<lambda>Sthres.
       if Sw \<le> Sthres then
         bind_result (DynamicWa_twoPhaseSatPcnw params Sthres Wa) (\<lambda>pcnw_SwLow.
         let delta0 = 0 in
         bind_result (DynamicWa_twoPhaseSatPcnw params (Sthres + eps) Wa) (\<lambda>pc2.
         let delta1 = delta0 + eps in
         bind_result (DynamicWa_twoPhaseSatPcnw params (Sthres - eps) Wa) (\<lambda>pc1.
         let delta = delta1 + eps in
         Inr (do {
           l \<leftarrow> pcnw_SwLow; a \<leftarrow> pc2; b \<leftarrow> pc1;
           m \<leftarrow> fdiv (a - b) delta;
           Some (l + m * (Sw - Sthres))
         }))))
       else if Sw \<ge> 1 then
         bind_result (DynamicWa_twoPhaseSatPcnw params 1 Wa) (\<lambda>pcnw_SwHigh.
         let delta0 = 0 in
         bind_result (DynamicWa_twoPhaseSatPcnw params 1 Wa) (\<lambda>pc2.
         bind_result (DynamicWa_twoPhaseSatPcnw params (1 - eps) Wa) (\<lambda>pc1.
         let delta = delta0 + eps in
         Inr (do {
           h \<leftarrow> pcnw_SwHigh; a \<leftarrow> pc2; b \<leftarrow> pc1;
           m \<leftarrow> fdiv (a - b) delta;
           Some (h + m * (Sw - 1))
         }))))
       else DynamicWa_twoPhaseSatPcnw params Sw Wa)"

definition RegularizedDynamicWa_twoPhaseSatKrw ::
  "'a RegularizedDynamicWaParams_scheme \<Rightarrow> real \<Rightarrow> real \<Rightarrow> error + scalar" where
  "RegularizedDynamicWa_twoPhaseSatKrw params Sw Wa =
     (if Sw \<le> 0 then Inr (Some 0)
      else if Sw \<ge> 1 then Inr (Some 1)
      else DynamicWa_twoPhaseSatKrw params Sw Wa)"

definition RegularizedDynamicWa_twoPhaseSatKrn ::
  "'a RegularizedDynamicWaParams_scheme \<Rightarrow> real \<Rightarrow> real \<Rightarrow> error + scalar" where
  "RegularizedDynamicWa_twoPhaseSatKrn params Sw Wa =
     (if Sw \<ge> 1 then Inr (Some 0)
      else if Sw \<le> 0 then Inr (Some 1)
      else DynamicWa_twoPhaseSatKrn params Sw Wa)"

section \<open>Sequences of calls on a store\<close>

text \<open>
  A store that was never finalized is a default-constructed one on which setters, and
  only setters, were called. A setter call is named by its field and its argument;
  \<open>call_getter\<close> is the accessor of a field, \<open>guarded\<close> tells whether that accessor
  calls \<open>check\<close>, \<open>stored\<close> is the private member, and \<open>last_set f cs\<close> is the
  argument of the last call in \<open>cs\<close> of the setter of \<open>f\<close>.
\<close>

datatype field =
  EntryPressure | FinalEntryPressure | Lambda | Llambda | Beta | Eta | Ei | Ef | PcLowSw

fun call_setter ::
  "field \<Rightarrow> real \<Rightarrow> 'a RegularizedDynamicWaParams_scheme \<Rightarrow> 'a RegularizedDynamicWaParams_scheme" where
  "call_setter EntryPressure v = setEntryPressure v"
| "call_setter FinalEntryPressure v = setFinalEntryPressure v"
| "call_setter Lambda v = setLambda v"
| "call_setter Llambda v = setLlambda v"
| "call_setter Beta v = setBeta v"
| "call_setter Eta v = setEta v"
| "call_setter Ei v = setEi v"
| "call_setter Ef v = setEf v"
| "call_setter PcLowSw v = setPcLowSw v"

fun call_getter :: "field \<Rightarrow> 'a RegularizedDynamicWaParams_scheme \<Rightarrow> error + real" where
  "call_getter EntryPressure p = entryPressure p"
| "call_getter FinalEntryPressure p = finalEntryPressure p"
| "call_getter Lambda p = lambda p"
| "call_getter Llambda p = llambda p"
| "call_getter Beta p = Inr (beta p)"
| "call_getter Eta p = Inr (eta p)"
| "call_getter Ei p = Inr (ei p)"
| "call_getter Ef p = Inr (ef p)"
| "call_getter PcLowSw p = pcnwLowSw p"

fun stored :: "field \<Rightarrow> 'a RegularizedDynamicWaParams_scheme \<Rightarrow> real" where
  "stored EntryPressure p = entryPressure' p"
| "stored FinalEntryPressure p = finalEntryPressure' p"
| "stored Lambda p = lambda' p"
| "stored Llambda p = llambda' p"
| "stored Beta p = beta' p"
| "stored Eta p = eta' p"
| "stored Ei p = ei' p"
| "stored Ef p = ef' p"
| "stored PcLowSw p = pcnwLowSw' p"

fun guarded :: "field \<Rightarrow> bool" where
  "guarded Beta = False"
| "guarded Eta = False"
| "guarded Ei = False"
| "guarded Ef = False"
| "guarded _ = True"

fun call_setters ::
  "(field \<times> real) list \<Rightarrow> 'a RegularizedDynamicWaParams_scheme \<Rightarrow> 'a RegularizedDynamicWaParams_scheme" where
  "call_setters [] p = p"
| "call_setters ((f, v) # cs) p = call_setters cs (call_setter f v p)"

fun last_set :: "field \<Rightarrow> (field \<times> real) list \<Rightarrow> real option" where
  "last_set f [] = None"
| "last_set f ((g, v) # cs) =
     (case last_set f cs of Some w \<Rightarrow> Some w | None \<Rightarrow> if g = f then Some v else None)"

section \<open>Vocabulary of the properties\<close>

text \<open>
  The properties speak of sums, straight lines and difference quotients of curve
  values. On results these are the operations on numbers, with a failure of the
  first operand, then of the second, passed on, and \<open>None\<close> absorbing.
\<close>

definition add_result :: "error + scalar \<Rightarrow> error + scalar \<Rightarrow> error + scalar" where
  "add_result r1 r2 =
     bind_result r1 (\<lambda>a. bind_result r2 (\<lambda>b.
       Inr (do { x \<leftarrow> a; y \<leftarrow> b; Some (x + y) })))"

definition diff_quotient :: "error + scalar \<Rightarrow> error + scalar \<Rightarrow> real \<Rightarrow> error + scalar" where
  "diff_quotient r2 r1 h =
     bind_result r2 (\<lambda>a. bind_result r1 (\<lambda>b.
       Inr (do { x \<leftarrow> a; y \<leftarrow> b; fdiv (x - y) h })))"

definition line_through :: "error + scalar \<Rightarrow> error + scalar \<Rightarrow> real \<Rightarrow> error + scalar" where
  "line_through r0 slope d =
     bind_result r0 (\<lambda>a. bind_result slope (\<lambda>b.
       Inr (do { x \<leftarrow> a; m \<leftarrow> b; Some (x + m * d) })))"

text \<open>\<open>value_less r1 r2\<close>: both results are numbers, the first below the second.\<close>

definition value_less :: "error + scalar \<Rightarrow> error + scalar \<Rightarrow> bool" where
  "value_less r1 r2 =
     (case r1 of Inr (Some a) \<Rightarrow> (case r2 of Inr (Some b) \<Rightarrow> a < b | _ \<Rightarrow> False)
      | _ \<Rightarrow> False)"

definition value_le :: "error + scalar \<Rightarrow> error + scalar \<Rightarrow> bool" where
  "value_le r1 r2 =
     (case r1 of Inr (Some a) \<Rightarrow> (case r2 of Inr (Some b) \<Rightarrow> a \<le> b | _ \<Rightarrow> False)
      | _ \<Rightarrow> False)"

text \<open>\<open>is_value r\<close>: the result is a number.\<close>

definition is_value :: "error + scalar \<Rightarrow> bool" where
  "is_value r = (case r of Inr (Some _) \<Rightarrow> True | _ \<Rightarrow> False)"

text \<open>The denominator shared by the two raw relative permeabilities.\<close>

definition krDenominator :: "'a DynamicWaParams_scheme \<Rightarrow> real \<Rightarrow> real \<Rightarrow> scalar" where
  "krDenominator p Sw Wa =
     do { w \<leftarrow> pow Sw (llambda' p);
          Some (1 - Sw + min (eta' p * Wa + ei' p) (ef' p) * w) }"

text \<open>
  The stores of the examples: memory with every coefficient zero, and the setup of the
  scenario of the specification (entry pressure 1000, final entry pressure 5000,
  \<open>\<lambda> = 2\<close>, \<open>\<beta> = 0.1\<close>, \<open>\<eta> = 1\<close>, \<open>Ei = 0.5\<close>, \<open>Ef = 2\<close>, \<open>\<Lambda> = 3\<close>,
  threshold 0.01), before \<open>finalize\<close>. \<open>steep\<close> is the scenario with final entry
  pressure 11000, \<open>tiny\<close> the scenario with threshold \<open>1e-8\<close>. The finalized stores are
  what \<open>finalize\<close> returns on them.
\<close>

definition zeroed :: RegularizedDynamicWaParams where
  "zeroed = \<lparr>finalized' = False, entryPressure' = 0, finalEntryPressure' = 0,
     lambda' = 0, llambda' = 0, beta' = 0, eta' = 0, ei' = 0, ef' = 0,
     pcnwLowSw' = 0, pcnwLow' = None, pcnwSlopeLow' = None, pcnwHigh' = None,
     pcnwSlopeHigh' = None\<rparr>"

definition scenario_calls :: "(field \<times> real) list" where
  "scenario_calls =
     [(EntryPressure, 1000), (FinalEntryPressure, 5000), (Lambda, 2), (Beta, 1 / 10),
      (Eta, 1), (Ei, 1 / 2), (Ef, 2), (Llambda, 3), (PcLowSw, 1 / 100)]"

definition scenario :: RegularizedDynamicWaParams where
  "scenario = call_setters scenario_calls (RegularizedDynamicWaParams_default zeroed)"

definition steep :: RegularizedDynamicWaParams where
  "steep = setFinalEntryPressure 11000 scenario"

definition tiny :: RegularizedDynamicWaParams where
  "tiny = setPcLowSw (1 / 10 ^ 8) scenario"

definition scenario_finalized :: RegularizedDynamicWaParams where
  "scenario_finalized = projr (RegularizedDynamicWaParams_finalize scenario)"

definition steep_finalized :: RegularizedDynamicWaParams where
  "steep_finalized = projr (RegularizedDynamicWaParams_finalize steep)"

definition tiny_finalized :: RegularizedDynamicWaParams where
  "tiny_finalized = projr (RegularizedDynamicWaParams_finalize tiny)"

section \<open>Basic facts\<close>

lemma bind_result_simps [simp]:
  "bind_result (Inl e) f = Inl e"
  "bind_result (Inr x) f = f x"
  by (simp_all add: bind_result_def)

lemmas setter_defs = setEntryPressure_def setFinalEntryPressure_def setLambda_def
  setLlambda_def setBeta_def setEta_def setEi_def setEf_def setPcLowSw_def

lemma guarded_reads [simp]:
  "finalized' p \<Longrightarrow> entryPressure p = Inr (entryPressure' p)"
  "finalized' p \<Longrightarrow> finalEntryPressure p = Inr (finalEntryPressure' p)"
  "finalized' p \<Longrightarrow> lambda p = Inr (lambda' p)"
  "finalized' p \<Longrightarrow> llambda p = Inr (llambda' p)"
  by (simp_all add: entryPressure_def finalEntryPressure_def lambda_def llambda_def check_def)

lemma unguarded_reads [simp]:
  "beta p = beta' p" "eta p = eta' p" "ei p = ei' p" "ef p = ef' p"
  by (simp_all add: beta_def eta_def ei_def ef_def)

lemma pow_unit_interval:
  "0 \<le> x \<Longrightarrow>
   pow x y = (if x = 0 \<and> y < 0 then None
              else Some (if x = 0 \<and> y = 0 then 1 else x powr y))"
  by (auto simp: pow_def)

lemma finalize_fields [simp]:
  "finalized' (DynamicWaParams_finalize p) = True"
  "entryPressure' (DynamicWaParams_finalize p) = entryPressure' p"
  "finalEntryPressure' (DynamicWaParams_finalize p) = finalEntryPressure' p"
  "lambda' (DynamicWaParams_finalize p) = lambda' p"
  "llambda' (DynamicWaParams_finalize p) = llambda' p"
  "beta' (DynamicWaParams_finalize p) = beta' p"
  "eta' (DynamicWaParams_finalize p) = eta' p"
  "ei' (DynamicWaParams_finalize p) = ei' p"
  "ef' (DynamicWaParams_finalize p) = ef' p"
  by (simp_all add: DynamicWaParams_finalize_def)

lemma scenario_fields [simp]:
  "finalized' scenario = False" "entryPressure' scenario = 1000"
  "finalEntryPressure' scenario = 5000" "lambda' scenario = 2" "llambda' scenario = 3"
  "beta' scenario = 1 / 10" "eta' scenario = 1" "ei' scenario = 1 / 2" "ef' scenario = 2"
  "pcnwLowSw' scenario = 1 / 100"
  by (simp_all add: scenario_def scenario_calls_def zeroed_def setter_defs
      RegularizedDynamicWaParams_default_def DynamicWaParams_default_def)

lemma raw_pcnw_eval:
  assumes "finalized' p" and "0 \<le> Sw" and "Sw \<le> 1"
  shows "DynamicWa_twoPhaseSatPcnw p Sw Wa =
     Inr (if entryPressure' p = 0 \<or> beta' p + Sw * Wa = 0 \<or> lambda' p = 0
             \<or> (Sw = 0 \<and> 0 < lambda' p)
          then None
          else Some (entryPressure' p * Sw powr (- 1 / lambda' p)
                 * (1 + (finalEntryPressure' p / entryPressure' p - 1) * (Sw * Wa)
                        / (beta' p + Sw * Wa))))"
  using assms
  by (auto simp: DynamicWa_twoPhaseSatPcnw_def fdiv_def pow_unit_interval
      divide_neg_pos divide_neg_neg mult_ac zero_less_divide_iff divide_less_0_iff)

lemma raw_pcnw_cong:
  "finalized' q = finalized' p \<Longrightarrow> entryPressure' q = entryPressure' p \<Longrightarrow>
   finalEntryPressure' q = finalEntryPressure' p \<Longrightarrow> lambda' q = lambda' p \<Longrightarrow>
   beta' q = beta' p \<Longrightarrow>
   DynamicWa_twoPhaseSatPcnw q Sw Wa = DynamicWa_twoPhaseSatPcnw p Sw Wa"
  by (simp add: DynamicWa_twoPhaseSatPcnw_def entryPressure_def finalEntryPressure_def
      lambda_def check_def)

lemma dPcnw_dSw_cong:
  "finalized' q = finalized' p \<Longrightarrow> entryPressure' q = entryPressure' p \<Longrightarrow>
   finalEntryPressure' q = finalEntryPressure' p \<Longrightarrow> lambda' q = lambda' p \<Longrightarrow>
   beta' q = beta' p \<Longrightarrow> dPcnw_dSw q Sw = dPcnw_dSw p Sw"
  unfolding dPcnw_dSw_def Let_def
  by (simp add: raw_pcnw_cong [of q p])

lemma raw_pcnw_Inr_range:
  "DynamicWa_twoPhaseSatPcnw p Sw Wa = Inr v \<Longrightarrow> 0 \<le> Sw \<and> Sw \<le> 1"
  by (simp add: DynamicWa_twoPhaseSatPcnw_def split: if_splits)

text \<open>What a successful \<open>finalize\<close> of the regularized store leaves behind.\<close>

lemma finalize_result:
  assumes "RegularizedDynamicWaParams_finalize p0 = Inr p"
  shows "finalized' p"
    and "pcnwLowSw' p = pcnwLowSw' p0"
    and "entryPressure' p = entryPressure' p0"
    and "finalEntryPressure' p = finalEntryPressure' p0"
    and "lambda' p = lambda' p0" and "llambda' p = llambda' p0"
    and "beta' p = beta' p0" and "eta' p = eta' p0" and "ei' p = ei' p0" and "ef' p = ef' p0"
    and "DynamicWa_twoPhaseSatPcnw p (pcnwLowSw' p) 0 = Inr (pcnwLow' p)"
    and "dPcnw_dSw p (pcnwLowSw' p) = Inr (pcnwSlopeLow' p)"
    and "DynamicWa_twoPhaseSatPcnw p 1 0 = Inr (pcnwHigh' p)"
    and "dPcnw_dSw p 1 = Inr (pcnwSlopeHigh' p)"
proof -
  let ?p1 = "DynamicWaParams_finalize p0"
  from assms obtain low slopeLow high slopeHigh where
    low: "DynamicWa_twoPhaseSatPcnw ?p1 (pcnwLowSw' ?p1) 0 = Inr low" and
    slopeLow: "dPcnw_dSw (?p1\<lparr>pcnwLow' := low\<rparr>) (pcnwLowSw' (?p1\<lparr>pcnwLow' := low\<rparr>))
                 = Inr slopeLow" and
    high: "DynamicWa_twoPhaseSatPcnw (?p1\<lparr>pcnwLow' := low, pcnwSlopeLow' := slopeLow\<rparr>) 1 0
             = Inr high" and
    slopeHigh: "dPcnw_dSw (?p1\<lparr>pcnwLow' := low, pcnwSlopeLow' := slopeLow, pcnwHigh' := high\<rparr>) 1
                  = Inr slopeHigh" and
    p: "p = ?p1\<lparr>pcnwLow' := low, pcnwSlopeLow' := slopeLow, pcnwHigh' := high,
                 pcnwSlopeHigh' := slopeHigh\<rparr>"
    unfolding RegularizedDynamicWaParams_finalize_def Let_def bind_result_def
    by (auto split: sum.splits)
  show "finalized' p" "pcnwLowSw' p = pcnwLowSw' p0" "entryPressure' p = entryPressure' p0"
    "finalEntryPressure' p = finalEntryPressure' p0" "lambda' p = lambda' p0"
    "llambda' p = llambda' p0" "beta' p = beta' p0" "eta' p = eta' p0" "ei' p = ei' p0"
    "ef' p = ef' p0"
    by (simp_all add: p DynamicWaParams_finalize_def)
  have c: "\<And>Sw Wa. DynamicWa_twoPhaseSatPcnw p Sw Wa = DynamicWa_twoPhaseSatPcnw ?p1 Sw Wa"
    by (rule raw_pcnw_cong) (simp_all add: p)
  have d: "\<And>Sw. dPcnw_dSw p Sw = dPcnw_dSw ?p1 Sw"
    by (rule dPcnw_dSw_cong) (simp_all add: p)
  show "DynamicWa_twoPhaseSatPcnw p (pcnwLowSw' p) 0 = Inr (pcnwLow' p)"
    using low by (simp add: c) (simp add: p)
  show "DynamicWa_twoPhaseSatPcnw p 1 0 = Inr (pcnwHigh' p)"
    using high unfolding c
    by (subst (asm) raw_pcnw_cong [of _ ?p1]) (simp_all add: p)
  show "dPcnw_dSw p (pcnwLowSw' p) = Inr (pcnwSlopeLow' p)"
    using slopeLow unfolding d
    by (subst (asm) dPcnw_dSw_cong [of _ ?p1]) (simp_all add: p)
  show "dPcnw_dSw p 1 = Inr (pcnwSlopeHigh' p)"
    using slopeHigh unfolding d
    by (subst (asm) dPcnw_dSw_cong [of _ ?p1]) (simp_all add: p)
qed

lemma eps_bounds: "0 < eps" "eps < 1 / 2" "2 * eps < 1"
  by (simp_all add: eps_def)

lemma raw_pcnw_succeeds:
  "finalized' p \<Longrightarrow> 0 \<le> Sw \<Longrightarrow> Sw \<le> 1 \<Longrightarrow> \<exists>v. DynamicWa_twoPhaseSatPcnw p Sw Wa = Inr v"
  using raw_pcnw_eval by blast

lemma dPcnw_dSw_eq:
  "dPcnw_dSw p Sw =
     (if Sw + eps < 1 \<and> 0 < Sw - eps
      then diff_quotient (DynamicWa_twoPhaseSatPcnw p (Sw + eps) 0)
             (DynamicWa_twoPhaseSatPcnw p (Sw - eps) 0) (2 * eps)
      else if Sw + eps < 1
      then diff_quotient (DynamicWa_twoPhaseSatPcnw p (Sw + eps) 0)
             (DynamicWa_twoPhaseSatPcnw p Sw 0) eps
      else diff_quotient (DynamicWa_twoPhaseSatPcnw p Sw 0)
             (DynamicWa_twoPhaseSatPcnw p (Sw - eps) 0) eps)"
proof -
  have "\<not> Sw + eps < 1 \<Longrightarrow> 0 < Sw - eps"
    using eps_bounds(2) by linarith
  then show ?thesis
    by (auto simp: dPcnw_dSw_def diff_quotient_def Let_def)
qed

lemma dPcnw_dSw_succeeds:
  assumes "finalized' p" and "0 \<le> Sw" and "Sw \<le> 1"
  shows "\<exists>v. dPcnw_dSw p Sw = Inr v"
proof -
  have a: "\<And>x. 0 \<le> x \<Longrightarrow> x \<le> 1 \<Longrightarrow> \<exists>v. DynamicWa_twoPhaseSatPcnw p x 0 = Inr v"
    using assms(1) by (rule raw_pcnw_succeeds)
  have 1: "\<exists>v. (if Sw + eps < 1 then DynamicWa_twoPhaseSatPcnw p (Sw + eps) 0
                   else DynamicWa_twoPhaseSatPcnw p Sw 0) = Inr v"
    using a [of "Sw + eps"] a [of Sw] assms(2,3) eps_bounds(1) by auto
  have 2: "\<exists>v. (if Sw - eps > 0 then DynamicWa_twoPhaseSatPcnw p (Sw - eps) 0
                   else DynamicWa_twoPhaseSatPcnw p Sw 0) = Inr v"
    using a [of "Sw - eps"] a [of Sw] assms(2,3) eps_bounds(1) by auto
  from 1 2 show ?thesis
    unfolding dPcnw_dSw_def Let_def by (auto simp del: bind_result_simps simp: bind_result_def)
qed

lemma finalize_succeeds:
  assumes "0 \<le> pcnwLowSw' p0" and "pcnwLowSw' p0 \<le> 1"
  shows "\<exists>p. RegularizedDynamicWaParams_finalize p0 = Inr p"
proof -
  let ?p1 = "DynamicWaParams_finalize p0"
  have t: "pcnwLowSw' ?p1 = pcnwLowSw' p0"
    by (simp add: DynamicWaParams_finalize_def)
  obtain low where low: "DynamicWa_twoPhaseSatPcnw ?p1 (pcnwLowSw' ?p1) 0 = Inr low"
    using raw_pcnw_succeeds [of ?p1 "pcnwLowSw' ?p1" 0] assms t by auto
  let ?p2 = "?p1\<lparr>pcnwLow' := low\<rparr>"
  obtain sl where sl: "dPcnw_dSw ?p2 (pcnwLowSw' ?p2) = Inr sl"
    using dPcnw_dSw_succeeds [of ?p2 "pcnwLowSw' ?p2"] assms t by auto
  let ?p3 = "?p2\<lparr>pcnwSlopeLow' := sl\<rparr>"
  obtain high where high: "DynamicWa_twoPhaseSatPcnw ?p3 1 0 = Inr high"
    using raw_pcnw_succeeds [of ?p3 1 0] by auto
  let ?p4 = "?p3\<lparr>pcnwHigh' := high\<rparr>"
  obtain sh where sh: "dPcnw_dSw ?p4 1 = Inr sh"
    using dPcnw_dSw_succeeds [of ?p4 1] by auto
  show ?thesis
    unfolding RegularizedDynamicWaParams_finalize_def Let_def
    using low sl high sh by simp
qed

lemma derived_reads [simp]:
  "finalized' p \<Longrightarrow> pcnwLowSw p = Inr (pcnwLowSw' p)"
  "finalized' p \<Longrightarrow> pcnwLow p = Inr (pcnwLow' p)"
  "finalized' p \<Longrightarrow> pcnwSlopeLow p = Inr (pcnwSlopeLow' p)"
  "finalized' p \<Longrightarrow> pcnwHigh p = Inr (pcnwHigh' p)"
  "finalized' p \<Longrightarrow> pcnwSlopeHigh p = Inr (pcnwSlopeHigh' p)"
  by (simp_all add: pcnwLowSw_def pcnwLow_def pcnwSlopeLow_def pcnwHigh_def
      pcnwSlopeHigh_def check_def)

lemma scenario_finalized: "RegularizedDynamicWaParams_finalize scenario = Inr scenario_finalized"
  using finalize_succeeds [of scenario] by (auto simp: scenario_finalized_def)

lemmas scenario_finalized_fields [simp] = finalize_result(1-10) [OF scenario_finalized]

lemma hundredth_powr: "(1 / 100 :: real) powr (- 1 / 2) = 10"
proof -
  have "((1 / 10 :: real) powr 2) powr (- 1 / 2) = (1 / 10) powr (- 1)"
    unfolding powr_powr by simp
  moreover have "(1 / 10 :: real) powr 2 = 1 / 100"
    by (simp add: power_one_over)
  ultimately show ?thesis by simp
qed

lemma is_valueE: "is_value r \<Longrightarrow> (\<And>v. r = Inr (Some v) \<Longrightarrow> P) \<Longrightarrow> P"
  by (auto simp: is_value_def split: sum.splits option.splits)

lemma finalize_threshold_range:
  assumes "RegularizedDynamicWaParams_finalize p0 = Inr p"
  shows "0 \<le> pcnwLowSw' p" and "pcnwLowSw' p \<le> 1"
  using raw_pcnw_Inr_range [OF finalize_result(11) [OF assms]] by simp_all

lemma regularized_pcnw_low:
  assumes "finalized' p" and "Sw \<le> pcnwLowSw' p"
  shows "RegularizedDynamicWa_twoPhaseSatPcnw p Sw Wa =
     line_through (DynamicWa_twoPhaseSatPcnw p (pcnwLowSw' p) Wa)
       (diff_quotient (DynamicWa_twoPhaseSatPcnw p (pcnwLowSw' p + eps) Wa)
          (DynamicWa_twoPhaseSatPcnw p (pcnwLowSw' p - eps) Wa) (2 * eps))
       (Sw - pcnwLowSw' p)"
proof -
  have "\<And>(l :: scalar) a b. do { x \<leftarrow> l; y \<leftarrow> a; z \<leftarrow> b; m \<leftarrow> fdiv (y - z) (2 * eps);
            Some (x + m * (Sw - pcnwLowSw' p)) }
        = do { x \<leftarrow> l; m \<leftarrow> do { y \<leftarrow> a; z \<leftarrow> b; fdiv (y - z) (2 * eps) };
            Some (x + m * (Sw - pcnwLowSw' p)) }"
    by (simp split: bind_split)
  then show ?thesis
    using assms
    by (simp add: RegularizedDynamicWa_twoPhaseSatPcnw_def line_through_def diff_quotient_def
        Let_def bind_result_def split: sum.splits)
qed

lemma regularized_pcnw_high:
  assumes "finalized' p" and "pcnwLowSw' p < Sw" and "1 \<le> Sw"
  shows "RegularizedDynamicWa_twoPhaseSatPcnw p Sw Wa =
     line_through (DynamicWa_twoPhaseSatPcnw p 1 Wa)
       (diff_quotient (DynamicWa_twoPhaseSatPcnw p 1 Wa)
          (DynamicWa_twoPhaseSatPcnw p (1 - eps) Wa) eps)
       (Sw - 1)"
proof -
  have "\<And>(l :: scalar) a b. do { x \<leftarrow> l; y \<leftarrow> a; z \<leftarrow> b; m \<leftarrow> fdiv (y - z) eps;
            Some (x + m * (Sw - 1)) }
        = do { x \<leftarrow> l; m \<leftarrow> do { y \<leftarrow> a; z \<leftarrow> b; fdiv (y - z) eps };
            Some (x + m * (Sw - 1)) }"
    by (simp split: bind_split)
  then show ?thesis
    using assms
    by (simp add: RegularizedDynamicWa_twoPhaseSatPcnw_def line_through_def diff_quotient_def
        Let_def bind_result_def split: sum.splits)
qed


lemma steep_fields [simp]:
  "finalized' steep = False" "entryPressure' steep = 1000"
  "finalEntryPressure' steep = 11000" "lambda' steep = 2" "llambda' steep = 3"
  "beta' steep = 1 / 10" "eta' steep = 1" "ei' steep = 1 / 2" "ef' steep = 2"
  "pcnwLowSw' steep = 1 / 100"
  by (simp_all add: steep_def setFinalEntryPressure_def)

lemma steep_finalized: "RegularizedDynamicWaParams_finalize steep = Inr steep_finalized"
  using finalize_succeeds [of steep] by (auto simp: steep_finalized_def)

lemmas steep_finalized_fields [simp] = finalize_result(1-10) [OF steep_finalized]

lemma tiny_fields [simp]:
  "finalized' tiny = False" "entryPressure' tiny = 1000"
  "finalEntryPressure' tiny = 5000" "lambda' tiny = 2" "llambda' tiny = 3"
  "beta' tiny = 1 / 10" "eta' tiny = 1" "ei' tiny = 1 / 2" "ef' tiny = 2"
  "pcnwLowSw' tiny = 1 / 10 ^ 8"
  by (simp_all add: tiny_def setPcLowSw_def)

lemma tiny_finalized: "RegularizedDynamicWaParams_finalize tiny = Inr tiny_finalized"
  using finalize_succeeds [of tiny] by (auto simp: tiny_finalized_def)

lemmas tiny_finalized_fields [simp] = finalize_result(1-10) [OF tiny_finalized]

lemma tiny_powr: "(1 / 10 ^ 8 :: real) powr (- 1 / 2) = 10000"
proof -
  have sq: "(1 / 100000000 :: real) = (1 / 10000) powr 2"
    by (simp add: power2_eq_square)
  have "(1 / 100000000 :: real) powr (- 1 / 2) = ((1 / 10000) powr 2) powr (- 1 / 2)"
    by (subst sq) (rule refl)
  also have "\<dots> = (1 / 10000) powr (2 * (- 1 / 2))"
    by (rule powr_powr)
  also have "\<dots> = 10000"
    by simp
  finally show ?thesis
    by simp
qed

lemma powr_neg_half: "0 < x \<Longrightarrow> x powr (- (1 / 2)) = 1 / sqrt x"
  using powr_minus [of x "1 / 2"] by (simp add: powr_half_sqrt inverse_eq_divide)

lemma scaled_powr_neg_half_less:
  fixes x y a b :: real
  assumes "0 < x" and "0 < y" and "0 \<le> a" and "0 \<le> b" and "b\<^sup>2 * x < a\<^sup>2 * y"
  shows "b * y powr (- 1 / 2) < a * x powr (- 1 / 2)"
proof -
  have "sqrt (b\<^sup>2 * x) < sqrt (a\<^sup>2 * y)"
    using assms(5) by simp
  then have "b * sqrt x < a * sqrt y"
    using assms(3,4) by (simp add: real_sqrt_mult)
  then have "b / sqrt y < a / sqrt x"
    using assms(1,2) by (simp add: field_simps)
  then show ?thesis
    using assms(1,2) by (simp add: powr_neg_half)
qed

lemma regularized_pcnw_low_value:
  assumes "finalized' p" and "Sw \<le> pcnwLowSw' p"
    and "DynamicWa_twoPhaseSatPcnw p (pcnwLowSw' p) Wa = Inr (Some l)"
    and "DynamicWa_twoPhaseSatPcnw p (pcnwLowSw' p + eps) Wa = Inr (Some a)"
    and "DynamicWa_twoPhaseSatPcnw p (pcnwLowSw' p - eps) Wa = Inr (Some b)"
  shows "RegularizedDynamicWa_twoPhaseSatPcnw p Sw Wa
           = Inr (Some (l + (a - b) / (2 * eps) * (Sw - pcnwLowSw' p)))"
  using eps_bounds(1)
  by (simp add: regularized_pcnw_low [OF assms(1,2)] assms(3-5) line_through_def
      diff_quotient_def fdiv_def)

lemma extrapolation_sign:
  assumes "finalized' p" and "Sw \<le> pcnwLowSw' p"
    and "DynamicWa_twoPhaseSatPcnw p (pcnwLowSw' p) Wa = Inr (Some l)"
    and "DynamicWa_twoPhaseSatPcnw p (pcnwLowSw' p + eps) Wa = Inr (Some a)"
    and "DynamicWa_twoPhaseSatPcnw p (pcnwLowSw' p - eps) Wa = Inr (Some b)"
    and "a \<le> b"
  shows "value_le (RegularizedDynamicWa_twoPhaseSatPcnw p (pcnwLowSw' p) Wa)
           (RegularizedDynamicWa_twoPhaseSatPcnw p Sw Wa)"
proof -
  have "0 \<le> (a - b) / (2 * eps) * (Sw - pcnwLowSw' p)"
    using assms(2,6) eps_bounds(1)
    by (intro mult_nonpos_nonpos divide_nonpos_pos) simp_all
  then show ?thesis
    by (simp add: regularized_pcnw_low_value [OF assms(1,2,3,4,5)]
        regularized_pcnw_low_value [OF assms(1) order_refl assms(3,4,5)] value_le_def)
qed

lemma call_setter_finalized [simp]: "finalized' (call_setter f v p) = finalized' p"
  by (cases f) (simp_all add: setter_defs)

lemma call_setters_finalized [simp]: "finalized' (call_setters cs p) = finalized' p"
  by (induction cs p rule: call_setters.induct) simp_all

lemma stored_call_setter: "stored f (call_setter g v p) = (if g = f then v else stored f p)"
  by (cases f; cases g) (simp_all add: setter_defs)

lemma stored_call_setters:
  "stored f (call_setters cs p) = (case last_set f cs of Some v \<Rightarrow> v | None \<Rightarrow> stored f p)"
  by (induction cs p rule: call_setters.induct)
    (simp_all add: stored_call_setter split: option.splits)

lemma call_getter_unfinalized:
  "\<not> finalized' p \<Longrightarrow> call_getter f p = (if guarded f then Inl NotFinalized else Inr (stored f p))"
  by (cases f)
    (simp_all add: entryPressure_def finalEntryPressure_def lambda_def llambda_def
      pcnwLowSw_def check_def)

lemma call_getter_finalized:
  "finalized' p \<Longrightarrow> call_getter f p = Inr (stored f p)"
  by (cases f) simp_all

lemma stored_finalize:
  "RegularizedDynamicWaParams_finalize p0 = Inr p \<Longrightarrow> stored f p = stored f p0"
  by (cases f) (simp_all add: finalize_result)

lemma stored_base_finalize [simp]: "stored f (DynamicWaParams_finalize p) = stored f p"
  by (cases f) (simp_all add: DynamicWaParams_finalize_def)

lemma diff_quotient_SomeD:
  assumes "diff_quotient r2 r1 h = Inr (Some m)"
  obtains a b where "r2 = Inr (Some a)" and "r1 = Inr (Some b)" and "h \<noteq> 0"
    and "m = (a - b) / h"
  using assms
  by (auto simp: diff_quotient_def bind_result_def fdiv_def
      split: sum.splits bind_splits if_splits)

lemma regularized_pcnw_high_value:
  assumes "finalized' p" and "pcnwLowSw' p < Sw" and "1 \<le> Sw"
    and "DynamicWa_twoPhaseSatPcnw p 1 Wa = Inr (Some h)"
    and "DynamicWa_twoPhaseSatPcnw p (1 - eps) Wa = Inr (Some b)"
  shows "RegularizedDynamicWa_twoPhaseSatPcnw p Sw Wa
           = Inr (Some (h + (h - b) / eps * (Sw - 1)))"
  using eps_bounds(1)
  by (simp add: regularized_pcnw_high [OF assms(1-3)] assms(4,5) line_through_def
      diff_quotient_def fdiv_def)

section \<open>The raw curves compute the formulas\<close>

text \<open>
  Claim C2. On a finalized store and a saturation in \<open>[0, 1]\<close> the raw capillary
  pressure never fails, and it is
  \<open>EntryPressure * Sw^(-1/\<lambda>) * (1 + (FinalEntryPressure/EntryPressure - 1) * (Sw*Wa) / (\<beta> + Sw*Wa))\<close>
  wherever that expression has a value in the reals. Nothing guards a zero entry
  pressure, a zero \<open>\<lambda>\<close>, a zero \<open>\<beta> + Sw*Wa\<close> or a zero saturation under a negative
  exponent: there the result is not a real number.
\<close>

theorem raw_pcnw_formula:
  assumes "finalized' p" and "0 \<le> Sw" and "Sw \<le> 1"
  shows "DynamicWa_twoPhaseSatPcnw p Sw Wa =
     Inr (if entryPressure' p = 0 \<or> beta' p + Sw * Wa = 0 \<or> lambda' p = 0
             \<or> (Sw = 0 \<and> 0 < lambda' p)
          then None
          else Some (entryPressure' p * Sw powr (- 1 / lambda' p)
                 * (1 + (finalEntryPressure' p / entryPressure' p - 1) * (Sw * Wa)
                        / (beta' p + Sw * Wa))))"
  using assms by (rule raw_pcnw_eval)

theorem raw_pcnw_formula_witness:
  "finalized' (DynamicWaParams_finalize scenario) \<and> (0 :: real) \<le> 1 / 2 \<and> (1 / 2 :: real) \<le> 1
   \<and> DynamicWa_twoPhaseSatPcnw (DynamicWaParams_finalize scenario) (1 / 2) 3 =
       Inr (Some (1000 * (1 / 2) powr (- 1 / 2)
              * (1 + (5000 / 1000 - 1) * (1 / 2 * 3) / (1 / 10 + 1 / 2 * 3))))"
  using raw_pcnw_formula [of "DynamicWaParams_finalize scenario" "1 / 2" 3]
  by simp

text \<open>
  Claim C3. On a finalized store and a saturation in \<open>[0, 1]\<close> the raw relative
  permeabilities never fail; with the one coefficient \<open>C = min (\<eta>*Wa + Ei) Ef\<close> and
  the one power \<open>Sw^\<Lambda>\<close> (1 for \<open>0^0\<close>), \<open>krw = C * Sw^\<Lambda> / (1 - Sw + C * Sw^\<Lambda>)\<close> and
  \<open>krn = (1 - Sw) / (1 - Sw + C * Sw^\<Lambda>)\<close> wherever the power and the quotient have a
  value in the reals.
\<close>

theorem raw_kr_formula:
  assumes "finalized' p" and "0 \<le> Sw" and "Sw \<le> 1"
  shows "let C = min (eta' p * Wa + ei' p) (ef' p);
             w = (if Sw = 0 \<and> llambda' p = 0 then 1 else Sw powr llambda' p);
             D = 1 - Sw + C * w
         in DynamicWa_twoPhaseSatKrw p Sw Wa =
              Inr (if (Sw = 0 \<and> llambda' p < 0) \<or> D = 0 then None else Some (C * w / D))
          \<and> DynamicWa_twoPhaseSatKrn p Sw Wa =
              Inr (if (Sw = 0 \<and> llambda' p < 0) \<or> D = 0 then None else Some ((1 - Sw) / D))"
  using assms
  by (simp add: DynamicWa_twoPhaseSatKrw_def DynamicWa_twoPhaseSatKrn_def fdiv_def
      pow_unit_interval Let_def)

theorem raw_kr_formula_witness:
  "finalized' (DynamicWaParams_finalize scenario) \<and> (0 :: real) \<le> 1 / 2 \<and> (1 / 2 :: real) \<le> 1
   \<and> DynamicWa_twoPhaseSatKrw (DynamicWaParams_finalize scenario) (1 / 2) 1 = Inr (Some (3 / 11))
   \<and> DynamicWa_twoPhaseSatKrn (DynamicWaParams_finalize scenario) (1 / 2) 1 = Inr (Some (8 / 11))"
  using raw_kr_formula [of "DynamicWaParams_finalize scenario" "1 / 2" 1]
  by (simp add: Let_def power_one_over)

section \<open>The clamps of the regularized relative permeabilities\<close>

text \<open>
  Claim C6. For every store, finalized or not, and every \<open>Wa\<close>: the regularized
  \<open>krw\<close> is exactly 0 for \<open>Sw \<le> 0\<close> and exactly 1 for \<open>Sw \<ge> 1\<close>, and the regularized
  \<open>krn\<close> is exactly 1 for \<open>Sw \<le> 0\<close> and exactly 0 for \<open>Sw \<ge> 1\<close>.
\<close>

theorem regularized_kr_clamps:
  "(Sw \<le> 0 \<longrightarrow> RegularizedDynamicWa_twoPhaseSatKrw p Sw Wa = Inr (Some 0)
              \<and> RegularizedDynamicWa_twoPhaseSatKrn p Sw Wa = Inr (Some 1))
   \<and> (1 \<le> Sw \<longrightarrow> RegularizedDynamicWa_twoPhaseSatKrw p Sw Wa = Inr (Some 1)
              \<and> RegularizedDynamicWa_twoPhaseSatKrn p Sw Wa = Inr (Some 0))"
  by (simp add: RegularizedDynamicWa_twoPhaseSatKrw_def RegularizedDynamicWa_twoPhaseSatKrn_def)

theorem regularized_kr_clamps_witness:
  "((- 1 :: real) \<le> 0 \<and> RegularizedDynamicWa_twoPhaseSatKrw scenario (- 1) 5 = Inr (Some 0)
              \<and> RegularizedDynamicWa_twoPhaseSatKrn scenario (- 1) 5 = Inr (Some 1))
   \<and> ((1 :: real) \<le> 2 \<and> RegularizedDynamicWa_twoPhaseSatKrw scenario 2 5 = Inr (Some 1)
              \<and> RegularizedDynamicWa_twoPhaseSatKrn scenario 2 5 = Inr (Some 0))"
  using regularized_kr_clamps [of "- 1" scenario 5] regularized_kr_clamps [of 2 scenario 5]
  by simp

section \<open>The relative permeabilities sum to one\<close>

lemma raw_kr_sum:
  assumes "finalized' p" and "0 \<le> Sw" and "Sw \<le> 1"
    and "krDenominator p Sw Wa = Some d" and "d \<noteq> 0"
  shows "add_result (DynamicWa_twoPhaseSatKrw p Sw Wa) (DynamicWa_twoPhaseSatKrn p Sw Wa)
           = Inr (Some 1)"
proof -
  from assms(4) obtain w where w: "pow Sw (llambda' p) = Some w"
    and d: "d = 1 - Sw + min (eta' p * Wa + ei' p) (ef' p) * w"
    by (auto simp: krDenominator_def split: bind_splits)
  have "min (eta' p * Wa + ei' p) (ef' p) * w / d + (1 - Sw) / d = 1"
    using \<open>d \<noteq> 0\<close> unfolding d add_divide_distrib [symmetric] by (simp add: add.commute)
  then show ?thesis
    using assms(1-3,5) w d
    by (simp add: add_result_def DynamicWa_twoPhaseSatKrw_def DynamicWa_twoPhaseSatKrn_def
        fdiv_def)
qed

text \<open>
  Claim C10. On a finalized store, for \<open>Sw\<close> in \<open>[0, 1]\<close> and a shared denominator
  \<open>1 - Sw + C(Wa) * Sw^\<Lambda>\<close> that is a nonzero real, the raw \<open>krw\<close> and \<open>krn\<close> sum to
  exactly 1. The regularized pair sums to exactly 1 for every real \<open>Sw\<close>: outside
  \<open>(0, 1)\<close> by the clamps, on any store; inside under the same conditions as the raw
  pair.
\<close>

theorem kr_sum_to_one:
  "(finalized' p \<and> 0 \<le> Sw \<and> Sw \<le> 1 \<and> krDenominator p Sw Wa = Some d \<and> d \<noteq> 0 \<longrightarrow>
      add_result (DynamicWa_twoPhaseSatKrw p Sw Wa) (DynamicWa_twoPhaseSatKrn p Sw Wa)
        = Inr (Some 1))
   \<and> (Sw \<le> 0 \<or> 1 \<le> Sw \<or> (finalized' r \<and> krDenominator r Sw Wa = Some d \<and> d \<noteq> 0) \<longrightarrow>
      add_result (RegularizedDynamicWa_twoPhaseSatKrw r Sw Wa)
                 (RegularizedDynamicWa_twoPhaseSatKrn r Sw Wa) = Inr (Some 1))"
proof (intro conjI impI)
  assume "finalized' p \<and> 0 \<le> Sw \<and> Sw \<le> 1 \<and> krDenominator p Sw Wa = Some d \<and> d \<noteq> 0"
  then show "add_result (DynamicWa_twoPhaseSatKrw p Sw Wa) (DynamicWa_twoPhaseSatKrn p Sw Wa)
        = Inr (Some 1)"
    using raw_kr_sum by blast
next
  assume h: "Sw \<le> 0 \<or> 1 \<le> Sw \<or> (finalized' r \<and> krDenominator r Sw Wa = Some d \<and> d \<noteq> 0)"
  show "add_result (RegularizedDynamicWa_twoPhaseSatKrw r Sw Wa)
                 (RegularizedDynamicWa_twoPhaseSatKrn r Sw Wa) = Inr (Some 1)"
  proof (cases "Sw \<le> 0 \<or> 1 \<le> Sw")
    case True
    then show ?thesis
      by (auto simp: add_result_def RegularizedDynamicWa_twoPhaseSatKrw_def
          RegularizedDynamicWa_twoPhaseSatKrn_def)
  next
    case False
    with h have "finalized' r" "krDenominator r Sw Wa = Some d" "d \<noteq> 0" "0 \<le> Sw" "Sw \<le> 1"
      by auto
    from raw_kr_sum [OF this(1,4,5,2,3)] False show ?thesis
      by (simp add: RegularizedDynamicWa_twoPhaseSatKrw_def
          RegularizedDynamicWa_twoPhaseSatKrn_def)
  qed
qed

theorem kr_sum_to_one_witness:
  "(finalized' (DynamicWaParams_finalize scenario) \<and> (0 :: real) \<le> 1 / 2 \<and> (1 / 2 :: real) \<le> 1
     \<and> krDenominator (DynamicWaParams_finalize scenario) (1 / 2) 1 = Some (11 / 16)
     \<and> (11 / 16 :: real) \<noteq> 0
     \<and> add_result (DynamicWa_twoPhaseSatKrw (DynamicWaParams_finalize scenario) (1 / 2) 1)
          (DynamicWa_twoPhaseSatKrn (DynamicWaParams_finalize scenario) (1 / 2) 1) = Inr (Some 1))
   \<and> add_result (RegularizedDynamicWa_twoPhaseSatKrw (DynamicWaParams_finalize scenario) (1 / 2) 1)
          (RegularizedDynamicWa_twoPhaseSatKrn (DynamicWaParams_finalize scenario) (1 / 2) 1)
        = Inr (Some 1)
   \<and> add_result (RegularizedDynamicWa_twoPhaseSatKrw (DynamicWaParams_finalize scenario) (- 3) 1)
          (RegularizedDynamicWa_twoPhaseSatKrn (DynamicWaParams_finalize scenario) (- 3) 1)
        = Inr (Some 1)"
proof -
  have d: "krDenominator (DynamicWaParams_finalize scenario) (1 / 2) 1 = Some (11 / 16)"
    by (simp add: krDenominator_def pow_def power_one_over)
  show ?thesis
    using d kr_sum_to_one [of "DynamicWaParams_finalize scenario" "1 / 2" 1 "11 / 16"
        "DynamicWaParams_finalize scenario"]
      kr_sum_to_one [of "DynamicWaParams_finalize scenario" "- 3" 1 "11 / 16"
        "DynamicWaParams_finalize scenario"]
    by simp
qed

section \<open>What finalize stores\<close>

text \<open>
  Claim C4. A \<open>finalize\<close> that returns has stored, with \<open>pc\<close> the raw capillary
  pressure at dynamic variable 0 and \<open>t\<close> the threshold: \<open>pcnwLow_ = pc t\<close>;
  \<open>pcnwSlopeLow_\<close> the symmetric difference \<open>(pc (t + eps) - pc (t - eps)) / (2 * eps)\<close>
  when \<open>t + eps < 1\<close> and \<open>0 < t - eps\<close>, otherwise the one-sided difference with step
  \<open>eps\<close> on the side that stays inside; \<open>pcnwHigh_ = pc 1\<close>; and \<open>pcnwSlopeHigh_\<close> the
  backward difference \<open>(pc 1 - pc (1 - eps)) / eps\<close>, where \<open>eps = 1e-7\<close>.
\<close>

theorem finalize_derived_values:
  assumes "RegularizedDynamicWaParams_finalize p0 = Inr p"
  shows "let t = pcnwLowSw' p0; pc = (\<lambda>Sw. DynamicWa_twoPhaseSatPcnw p Sw 0) in
     pcnwLow p = pc t
   \<and> pcnwSlopeLow p =
       (if t + eps < 1 \<and> 0 < t - eps then diff_quotient (pc (t + eps)) (pc (t - eps)) (2 * eps)
        else if t + eps < 1 then diff_quotient (pc (t + eps)) (pc t) eps
        else diff_quotient (pc t) (pc (t - eps)) eps)
   \<and> pcnwHigh p = pc 1
   \<and> pcnwSlopeHigh p = diff_quotient (pc 1) (pc (1 - eps)) eps"
proof -
  note r = finalize_result [OF assms]
  let ?t = "pcnwLowSw' p0"
  let ?pc = "\<lambda>Sw. DynamicWa_twoPhaseSatPcnw p Sw 0"
  have low: "pcnwLow p = ?pc ?t"
    using r(1,2,11) by simp
  have slopeLow: "pcnwSlopeLow p =
       (if ?t + eps < 1 \<and> 0 < ?t - eps then diff_quotient (?pc (?t + eps)) (?pc (?t - eps)) (2 * eps)
        else if ?t + eps < 1 then diff_quotient (?pc (?t + eps)) (?pc ?t) eps
        else diff_quotient (?pc ?t) (?pc (?t - eps)) eps)"
    using r(1,2,12) dPcnw_dSw_eq [of p ?t] by simp
  have high: "pcnwHigh p = ?pc 1"
    using r(1,13) by simp
  have "dPcnw_dSw p 1 = diff_quotient (?pc 1) (?pc (1 - eps)) eps"
    using eps_bounds(1) by (auto simp: dPcnw_dSw_eq)
  then have slopeHigh: "pcnwSlopeHigh p = diff_quotient (?pc 1) (?pc (1 - eps)) eps"
    using r(1,14) by simp
  show ?thesis
    unfolding Let_def by (intro conjI) (rule low slopeLow high slopeHigh)+
qed


theorem finalize_derived_values_witness:
  "RegularizedDynamicWaParams_finalize scenario = Inr scenario_finalized
   \<and> pcnwLow scenario_finalized = Inr (Some 10000)
   \<and> pcnwSlopeLow scenario_finalized =
       Inr (Some ((1000 * (1 / 100 + eps) powr (- 1 / 2) - 1000 * (1 / 100 - eps) powr (- 1 / 2))
                  / (2 * eps)))
   \<and> pcnwHigh scenario_finalized = Inr (Some 1000)
   \<and> pcnwSlopeHigh scenario_finalized =
       Inr (Some ((1000 - 1000 * (1 - eps) powr (- 1 / 2)) / eps))"
  using finalize_derived_values [OF scenario_finalized] scenario_finalized hundredth_powr
  by (simp add: Let_def raw_pcnw_eval diff_quotient_def fdiv_def eps_def)

section \<open>The three regions of the regularized capillary pressure\<close>

text \<open>
  Claim C7. On a store that \<open>finalize\<close> returned, with threshold \<open>t\<close>, and for
  \<open>t < Sw < 1\<close>, the regularized capillary pressure, \<open>krw\<close> and \<open>krn\<close> are the raw
  ones, failures and all. In the scenario of the specification the raw, hence the
  regularized, \<open>pc(0.5, 0)\<close> is \<open>1000 * 0.5^(-0.5)\<close>.
\<close>

theorem mid_region_passthrough:
  assumes "RegularizedDynamicWaParams_finalize p0 = Inr p"
    and "pcnwLowSw' p < Sw" and "Sw < 1"
  shows "RegularizedDynamicWa_twoPhaseSatPcnw p Sw Wa = DynamicWa_twoPhaseSatPcnw p Sw Wa
       \<and> RegularizedDynamicWa_twoPhaseSatKrw p Sw Wa = DynamicWa_twoPhaseSatKrw p Sw Wa
       \<and> RegularizedDynamicWa_twoPhaseSatKrn p Sw Wa = DynamicWa_twoPhaseSatKrn p Sw Wa
       \<and> (p0 = scenario \<and> Sw = 1 / 2 \<and> Wa = 0 \<longrightarrow>
            DynamicWa_twoPhaseSatPcnw p Sw Wa = Inr (Some (1000 * (1 / 2) powr (- 1 / 2))))"
proof -
  note r = finalize_result(1-10) [OF assms(1)]
  have "0 < Sw"
    using finalize_threshold_range(1) [OF assms(1)] assms(2) by simp
  moreover have "p0 = scenario \<and> Sw = 1 / 2 \<and> Wa = 0 \<longrightarrow>
            DynamicWa_twoPhaseSatPcnw p Sw Wa = Inr (Some (1000 * (1 / 2) powr (- 1 / 2)))"
  proof (intro impI, elim conjE)
    assume s: "p0 = scenario" and "Sw = 1 / 2" and "Wa = 0"
    have "DynamicWa_twoPhaseSatPcnw p (1 / 2) 0 = Inr (Some (1000 * (1 / 2) powr (- 1 / 2)))"
      using r unfolding s by (simp add: raw_pcnw_eval)
    then show "DynamicWa_twoPhaseSatPcnw p Sw Wa = Inr (Some (1000 * (1 / 2) powr (- 1 / 2)))"
      unfolding \<open>Sw = 1 / 2\<close> \<open>Wa = 0\<close> .
  qed
  ultimately show ?thesis
    using r(1) assms(2,3)
    by (simp add: RegularizedDynamicWa_twoPhaseSatPcnw_def
        RegularizedDynamicWa_twoPhaseSatKrw_def RegularizedDynamicWa_twoPhaseSatKrn_def)
qed

theorem mid_region_passthrough_witness:
  "RegularizedDynamicWaParams_finalize scenario = Inr scenario_finalized
   \<and> pcnwLowSw' scenario_finalized < 1 / 2 \<and> (1 / 2 :: real) < 1
   \<and> RegularizedDynamicWa_twoPhaseSatPcnw scenario_finalized (1 / 2) 0
        = Inr (Some (1000 * (1 / 2) powr (- 1 / 2)))
   \<and> DynamicWa_twoPhaseSatPcnw scenario_finalized (1 / 2) 0
        = Inr (Some (1000 * (1 / 2) powr (- 1 / 2)))
   \<and> RegularizedDynamicWa_twoPhaseSatKrw scenario_finalized (1 / 2) 0 = Inr (Some (1 / 9))
   \<and> RegularizedDynamicWa_twoPhaseSatKrn scenario_finalized (1 / 2) 0 = Inr (Some (8 / 9))"
proof -
  have kr: "DynamicWa_twoPhaseSatKrw scenario_finalized (1 / 2) 0 = Inr (Some (1 / 9))"
    "DynamicWa_twoPhaseSatKrn scenario_finalized (1 / 2) 0 = Inr (Some (8 / 9))"
    by (simp_all add: DynamicWa_twoPhaseSatKrw_def DynamicWa_twoPhaseSatKrn_def pow_def
        fdiv_def power_one_over)
  show ?thesis
    using mid_region_passthrough [OF scenario_finalized, of "1 / 2" 0] scenario_finalized kr
    by simp
qed

text \<open>
  Where the three points \<open>t - eps\<close>, \<open>t\<close>, \<open>t + eps\<close> give numbers on the raw curve, the
  regularized capillary pressure meets the raw one at the threshold, for the \<open>Wa\<close> of
  the call; and for \<open>t < 1\<close>, where \<open>1 - eps\<close> and \<open>1\<close> give numbers, it meets the raw one
  at 1. The slope is multiplied by 0 there, so the agreement is exact.
\<close>

lemma boundary_agreement:
  assumes "RegularizedDynamicWaParams_finalize p0 = Inr p"
  shows "let t = pcnwLowSw' p in
     (is_value (DynamicWa_twoPhaseSatPcnw p t Wa)
        \<and> is_value (DynamicWa_twoPhaseSatPcnw p (t + eps) Wa)
        \<and> is_value (DynamicWa_twoPhaseSatPcnw p (t - eps) Wa) \<longrightarrow>
      RegularizedDynamicWa_twoPhaseSatPcnw p t Wa = DynamicWa_twoPhaseSatPcnw p t Wa)
   \<and> (t < 1 \<and> is_value (DynamicWa_twoPhaseSatPcnw p 1 Wa)
        \<and> is_value (DynamicWa_twoPhaseSatPcnw p (1 - eps) Wa) \<longrightarrow>
      RegularizedDynamicWa_twoPhaseSatPcnw p 1 Wa = DynamicWa_twoPhaseSatPcnw p 1 Wa)"
proof -
  let ?t = "pcnwLowSw' p"
  note fin = finalize_result(1) [OF assms]
  note range = finalize_threshold_range [OF assms]
  have low: "RegularizedDynamicWa_twoPhaseSatPcnw p ?t Wa = DynamicWa_twoPhaseSatPcnw p ?t Wa"
    if "is_value (DynamicWa_twoPhaseSatPcnw p (?t + eps) Wa)"
      and "is_value (DynamicWa_twoPhaseSatPcnw p (?t - eps) Wa)"
  proof -
    from that obtain a b where
      a: "DynamicWa_twoPhaseSatPcnw p (?t + eps) Wa = Inr (Some a)" and
      b: "DynamicWa_twoPhaseSatPcnw p (?t - eps) Wa = Inr (Some b)"
      by (elim is_valueE) blast
    obtain l where l: "DynamicWa_twoPhaseSatPcnw p ?t Wa = Inr l"
      using raw_pcnw_succeeds [OF fin range] by blast
    show ?thesis
      using eps_bounds(1)
      by (simp add: regularized_pcnw_low [OF fin] a b l line_through_def diff_quotient_def
          fdiv_def)
  qed
  have high: "RegularizedDynamicWa_twoPhaseSatPcnw p 1 Wa = DynamicWa_twoPhaseSatPcnw p 1 Wa"
    if "?t < 1" and "is_value (DynamicWa_twoPhaseSatPcnw p (1 - eps) Wa)"
  proof -
    from that(2) obtain b where
      b: "DynamicWa_twoPhaseSatPcnw p (1 - eps) Wa = Inr (Some b)"
      by (elim is_valueE)
    obtain h where h: "DynamicWa_twoPhaseSatPcnw p 1 Wa = Inr h"
      using raw_pcnw_succeeds [OF fin, of 1] by auto
    show ?thesis
      using eps_bounds(1) that(1)
      by (cases h)
        (simp_all add: regularized_pcnw_high [OF fin] b h line_through_def diff_quotient_def
          fdiv_def)
  qed
  show ?thesis
    unfolding Let_def using low high by blast
qed

lemma boundary_agreement_scenario:
  "RegularizedDynamicWaParams_finalize scenario = Inr scenario_finalized
   \<and> is_value (DynamicWa_twoPhaseSatPcnw scenario_finalized (1 / 100 + eps) 3)
   \<and> is_value (DynamicWa_twoPhaseSatPcnw scenario_finalized (1 / 100 - eps) 3)
   \<and> RegularizedDynamicWa_twoPhaseSatPcnw scenario_finalized (1 / 100) 3
        = DynamicWa_twoPhaseSatPcnw scenario_finalized (1 / 100) 3
   \<and> DynamicWa_twoPhaseSatPcnw scenario_finalized (1 / 100) 3 = Inr (Some (250000 / 13))
   \<and> pcnwLowSw' scenario_finalized < 1
   \<and> is_value (DynamicWa_twoPhaseSatPcnw scenario_finalized (1 - eps) 3)
   \<and> RegularizedDynamicWa_twoPhaseSatPcnw scenario_finalized 1 3
        = DynamicWa_twoPhaseSatPcnw scenario_finalized 1 3
   \<and> DynamicWa_twoPhaseSatPcnw scenario_finalized 1 3 = Inr (Some (151000 / 31))"
proof -
  have v: "is_value (DynamicWa_twoPhaseSatPcnw scenario_finalized (1 / 100 + eps) 3)"
    "is_value (DynamicWa_twoPhaseSatPcnw scenario_finalized (1 / 100 - eps) 3)"
    "is_value (DynamicWa_twoPhaseSatPcnw scenario_finalized (1 - eps) 3)"
    by (simp_all add: is_value_def raw_pcnw_eval eps_def)
  have e: "DynamicWa_twoPhaseSatPcnw scenario_finalized (1 / 100) 3 = Inr (Some (250000 / 13))"
    "DynamicWa_twoPhaseSatPcnw scenario_finalized 1 3 = Inr (Some (151000 / 31))"
    using hundredth_powr by (simp_all add: raw_pcnw_eval)
  have n: "\<And>x. is_value (Inr (Some x))"
    by (simp add: is_value_def)
  show ?thesis
    using boundary_agreement [OF scenario_finalized, of 3] scenario_finalized v e
    by (simp add: Let_def n)
qed


text \<open>
  Claim C8. On a finalized store and for any \<open>Wa\<close> used in both curves, the regularized
  capillary pressure agrees with the raw one at the threshold and at 1. The evaluator
  breaks this for a threshold closer than \<open>eps\<close> to 0: its low branch always calls the
  raw curve at \<open>t - eps\<close> and \<open>t + eps\<close>. With the threshold \<open>1e-8\<close>, on which
  \<open>finalize\<close> returns, the raw \<open>pc(t, 0)\<close> is \<open>1e7\<close>, the raw call at \<open>t - eps < 0\<close> fails
  its assertion, and so does the regularized \<open>pc(t, 0)\<close>. \<open>dPcnw_dSw_\<close>, which
  differentiates the same curve for \<open>finalize\<close>, steps only to the side that stays
  inside and has stored a slope that is a number.
\<close>

theorem unguarded_stencil_at_tiny_threshold:
  "RegularizedDynamicWaParams_finalize tiny = Inr tiny_finalized
   \<and> pcnwLowSw tiny_finalized = Inr (1 / 10 ^ 8)
   \<and> DynamicWa_twoPhaseSatPcnw tiny_finalized (1 / 10 ^ 8) 0 = Inr (Some 10000000)
   \<and> DynamicWa_twoPhaseSatPcnw tiny_finalized (1 / 10 ^ 8 - eps) 0 = Inl AssertionFailed
   \<and> RegularizedDynamicWa_twoPhaseSatPcnw tiny_finalized (1 / 10 ^ 8) 0 = Inl AssertionFailed
   \<and> pcnwSlopeLow tiny_finalized =
        diff_quotient (DynamicWa_twoPhaseSatPcnw tiny_finalized (1 / 10 ^ 8 + eps) 0)
          (DynamicWa_twoPhaseSatPcnw tiny_finalized (1 / 10 ^ 8) 0) eps
   \<and> is_value (pcnwSlopeLow tiny_finalized)"
proof -
  have t: "DynamicWa_twoPhaseSatPcnw tiny_finalized (1 / 10 ^ 8) 0 = Inr (Some 10000000)"
    using tiny_powr by (simp add: raw_pcnw_eval)
  have below: "DynamicWa_twoPhaseSatPcnw tiny_finalized (1 / 10 ^ 8 - eps) 0 = Inl AssertionFailed"
    by (simp add: DynamicWa_twoPhaseSatPcnw_def eps_def)
  have above: "DynamicWa_twoPhaseSatPcnw tiny_finalized (1 / 10 ^ 8 + eps) 0
                 = Inr (Some (1000 * (1 / 10 ^ 8 + eps) powr (- 1 / 2)))"
    by (simp add: raw_pcnw_eval eps_def)
  have reg: "RegularizedDynamicWa_twoPhaseSatPcnw tiny_finalized (1 / 10 ^ 8) 0
               = Inl AssertionFailed"
    using t below above
    by (simp add: regularized_pcnw_low line_through_def diff_quotient_def)
  have "dPcnw_dSw tiny_finalized (1 / 10 ^ 8) =
          diff_quotient (DynamicWa_twoPhaseSatPcnw tiny_finalized (1 / 10 ^ 8 + eps) 0)
            (DynamicWa_twoPhaseSatPcnw tiny_finalized (1 / 10 ^ 8) 0) eps"
    by (simp add: dPcnw_dSw_eq eps_def)
  then have slope: "pcnwSlopeLow tiny_finalized =
          diff_quotient (DynamicWa_twoPhaseSatPcnw tiny_finalized (1 / 10 ^ 8 + eps) 0)
            (DynamicWa_twoPhaseSatPcnw tiny_finalized (1 / 10 ^ 8) 0) eps"
    using finalize_result(12) [OF tiny_finalized] by simp
  have "is_value (pcnwSlopeLow tiny_finalized)"
    unfolding slope t above using eps_bounds(1)
    by (simp add: diff_quotient_def fdiv_def is_value_def)
  with t below reg slope show ?thesis
    using tiny_finalized by simp
qed

text \<open>
  Claim C1, as the code has it. On a store that \<open>finalize\<close> returned, with threshold
  \<open>t\<close>, and wherever the raw values involved are numbers: for \<open>Sw \<le> t\<close>, with
  \<open>0 < t - eps\<close> and \<open>t + eps < 1\<close>, the regularized capillary pressure is
  \<open>pc(t, Wa) + m * (Sw - t)\<close> with \<open>m = (pc(t + eps, Wa) - pc(t - eps, Wa)) / (2 * eps)\<close>,
  and for \<open>Sw \<ge> 1\<close> above \<open>t\<close> it is \<open>pc(1, Wa) + m * (Sw - 1)\<close> with
  \<open>m = (pc(1, Wa) - pc(1 - eps, Wa)) / eps\<close>, where \<open>pc\<close> is the raw curve: value and
  slope are taken at the \<open>Wa\<close> of the call. For \<open>Wa = 0\<close> the result is
  \<open>pcnwLow + pcnwSlopeLow * (Sw - t)\<close>, respectively
  \<open>pcnwHigh + pcnwSlopeHigh * (Sw - 1)\<close>, of the stored values.
\<close>

theorem extrapolation_follows_Wa:
  assumes "RegularizedDynamicWaParams_finalize p0 = Inr p"
  shows "let t = pcnwLowSw' p; pc = DynamicWa_twoPhaseSatPcnw p;
             pcnw = RegularizedDynamicWa_twoPhaseSatPcnw p in
     (Sw \<le> t \<and> 0 < t - eps \<and> t + eps < 1
        \<and> pc t Wa = Inr (Some l) \<and> pc (t + eps) Wa = Inr (Some a)
        \<and> pc (t - eps) Wa = Inr (Some b) \<longrightarrow>
      pcnw Sw Wa = Inr (Some (l + (a - b) / (2 * eps) * (Sw - t))))
   \<and> (t < Sw \<and> 1 \<le> Sw \<and> pc 1 Wa = Inr (Some h) \<and> pc (1 - eps) Wa = Inr (Some c) \<longrightarrow>
      pcnw Sw Wa = Inr (Some (h + (h - c) / eps * (Sw - 1))))
   \<and> (Sw \<le> t \<and> 0 < t - eps \<and> t + eps < 1
        \<and> pcnwLow p = Inr (Some L) \<and> pcnwSlopeLow p = Inr (Some M) \<longrightarrow>
      pcnw Sw 0 = Inr (Some (L + M * (Sw - t))))
   \<and> (t < Sw \<and> 1 \<le> Sw \<and> pcnwHigh p = Inr (Some H) \<and> pcnwSlopeHigh p = Inr (Some N) \<longrightarrow>
      pcnw Sw 0 = Inr (Some (H + N * (Sw - 1))))"
proof -
  let ?t = "pcnwLowSw' p"
  note r = finalize_result [OF assms]
  have low: "RegularizedDynamicWa_twoPhaseSatPcnw p Sw Wa
               = Inr (Some (l + (a - b) / (2 * eps) * (Sw - ?t)))"
    if "Sw \<le> ?t" and "DynamicWa_twoPhaseSatPcnw p ?t Wa = Inr (Some l)"
      and "DynamicWa_twoPhaseSatPcnw p (?t + eps) Wa = Inr (Some a)"
      and "DynamicWa_twoPhaseSatPcnw p (?t - eps) Wa = Inr (Some b)"
    using that by (rule regularized_pcnw_low_value [OF r(1)])
  have high: "RegularizedDynamicWa_twoPhaseSatPcnw p Sw Wa
               = Inr (Some (h + (h - c) / eps * (Sw - 1)))"
    if "?t < Sw" and "1 \<le> Sw" and "DynamicWa_twoPhaseSatPcnw p 1 Wa = Inr (Some h)"
      and "DynamicWa_twoPhaseSatPcnw p (1 - eps) Wa = Inr (Some c)"
    using that by (rule regularized_pcnw_high_value [OF r(1)])
  have low0: "RegularizedDynamicWa_twoPhaseSatPcnw p Sw 0 = Inr (Some (L + M * (Sw - ?t)))"
    if "Sw \<le> ?t" and "0 < ?t - eps" and "?t + eps < 1"
      and "pcnwLow p = Inr (Some L)" and "pcnwSlopeLow p = Inr (Some M)"
  proof -
    have l: "DynamicWa_twoPhaseSatPcnw p ?t 0 = Inr (Some L)"
      using r(1,11) that(4) by simp
    have "diff_quotient (DynamicWa_twoPhaseSatPcnw p (?t + eps) 0)
            (DynamicWa_twoPhaseSatPcnw p (?t - eps) 0) (2 * eps) = Inr (Some M)"
      using r(1,12) that(2,3,5) dPcnw_dSw_eq [of p ?t] by simp
    then obtain a' b' where
      "DynamicWa_twoPhaseSatPcnw p (?t + eps) 0 = Inr (Some a')"
      "DynamicWa_twoPhaseSatPcnw p (?t - eps) 0 = Inr (Some b')"
      "M = (a' - b') / (2 * eps)"
      by (rule diff_quotient_SomeD)
    then show ?thesis
      using regularized_pcnw_low_value [OF r(1) that(1) l] by simp
  qed
  have high0: "RegularizedDynamicWa_twoPhaseSatPcnw p Sw 0 = Inr (Some (H + N * (Sw - 1)))"
    if "?t < Sw" and "1 \<le> Sw"
      and "pcnwHigh p = Inr (Some H)" and "pcnwSlopeHigh p = Inr (Some N)"
  proof -
    have h: "DynamicWa_twoPhaseSatPcnw p 1 0 = Inr (Some H)"
      using r(1,13) that(3) by simp
    have "dPcnw_dSw p 1 = diff_quotient (DynamicWa_twoPhaseSatPcnw p 1 0)
            (DynamicWa_twoPhaseSatPcnw p (1 - eps) 0) eps"
      using eps_bounds(1) by (auto simp: dPcnw_dSw_eq)
    then have "diff_quotient (DynamicWa_twoPhaseSatPcnw p 1 0)
            (DynamicWa_twoPhaseSatPcnw p (1 - eps) 0) eps = Inr (Some N)"
      using r(1,14) that(4) by simp
    then obtain a' b' where
      "DynamicWa_twoPhaseSatPcnw p 1 0 = Inr (Some a')"
      "DynamicWa_twoPhaseSatPcnw p (1 - eps) 0 = Inr (Some b')"
      "N = (a' - b') / eps"
      by (rule diff_quotient_SomeD)
    then show ?thesis
      using regularized_pcnw_high_value [OF r(1) that(1,2) h] h by simp
  qed
  show ?thesis
    unfolding Let_def using low high low0 high0 by blast
qed


theorem extrapolation_follows_Wa_witness:
  "RegularizedDynamicWaParams_finalize scenario = Inr scenario_finalized
   \<and> 0 < pcnwLowSw' scenario_finalized - eps \<and> pcnwLowSw' scenario_finalized + eps < 1
   \<and> 0 \<le> pcnwLowSw' scenario_finalized \<and> pcnwLowSw' scenario_finalized < 2 \<and> (1 :: real) \<le> 2
   \<and> DynamicWa_twoPhaseSatPcnw scenario_finalized (1 / 100) 3 = Inr (Some (250000 / 13))
   \<and> DynamicWa_twoPhaseSatPcnw scenario_finalized (1 / 100 + eps) 3
       = Inr (Some (1000 * (1 / 100 + eps) powr (- 1 / 2)
                     * (1 + 4 * ((1 / 100 + eps) * 3) / (1 / 10 + (1 / 100 + eps) * 3))))
   \<and> DynamicWa_twoPhaseSatPcnw scenario_finalized (1 / 100 - eps) 3
       = Inr (Some (1000 * (1 / 100 - eps) powr (- 1 / 2)
                     * (1 + 4 * ((1 / 100 - eps) * 3) / (1 / 10 + (1 / 100 - eps) * 3))))
   \<and> RegularizedDynamicWa_twoPhaseSatPcnw scenario_finalized 0 3
       = Inr (Some (250000 / 13
            + (1000 * (1 / 100 + eps) powr (- 1 / 2)
                 * (1 + 4 * ((1 / 100 + eps) * 3) / (1 / 10 + (1 / 100 + eps) * 3))
               - 1000 * (1 / 100 - eps) powr (- 1 / 2)
                 * (1 + 4 * ((1 / 100 - eps) * 3) / (1 / 10 + (1 / 100 - eps) * 3)))
              / (2 * eps) * (0 - 1 / 100)))
   \<and> DynamicWa_twoPhaseSatPcnw scenario_finalized 1 3 = Inr (Some (151000 / 31))
   \<and> DynamicWa_twoPhaseSatPcnw scenario_finalized (1 - eps) 3
       = Inr (Some (1000 * (1 - eps) powr (- 1 / 2)
                     * (1 + 4 * ((1 - eps) * 3) / (1 / 10 + (1 - eps) * 3))))
   \<and> RegularizedDynamicWa_twoPhaseSatPcnw scenario_finalized 2 3
       = Inr (Some (151000 / 31
            + (151000 / 31 - 1000 * (1 - eps) powr (- 1 / 2)
                 * (1 + 4 * ((1 - eps) * 3) / (1 / 10 + (1 - eps) * 3)))
              / eps * (2 - 1)))
   \<and> pcnwLow scenario_finalized = Inr (Some 10000)
   \<and> pcnwSlopeLow scenario_finalized
       = Inr (Some ((1000 * (1 / 100 + eps) powr (- 1 / 2)
                     - 1000 * (1 / 100 - eps) powr (- 1 / 2)) / (2 * eps)))
   \<and> RegularizedDynamicWa_twoPhaseSatPcnw scenario_finalized 0 0
       = Inr (Some (10000
            + (1000 * (1 / 100 + eps) powr (- 1 / 2) - 1000 * (1 / 100 - eps) powr (- 1 / 2))
              / (2 * eps) * (0 - 1 / 100)))
   \<and> pcnwHigh scenario_finalized = Inr (Some 1000)
   \<and> pcnwSlopeHigh scenario_finalized
       = Inr (Some ((1000 - 1000 * (1 - eps) powr (- 1 / 2)) / eps))
   \<and> RegularizedDynamicWa_twoPhaseSatPcnw scenario_finalized 2 0
       = Inr (Some (1000 + (1000 - 1000 * (1 - eps) powr (- 1 / 2)) / eps * (2 - 1)))"
proof -
  let ?A = "1000 * (1 / 100 + eps) powr (- 1 / 2)
              * (1 + 4 * ((1 / 100 + eps) * 3) / (1 / 10 + (1 / 100 + eps) * 3))"
  let ?B = "1000 * (1 / 100 - eps) powr (- 1 / 2)
              * (1 + 4 * ((1 / 100 - eps) * 3) / (1 / 10 + (1 / 100 - eps) * 3))"
  let ?C = "1000 * (1 - eps) powr (- 1 / 2) * (1 + 4 * ((1 - eps) * 3) / (1 / 10 + (1 - eps) * 3))"
  let ?M = "(1000 * (1 / 100 + eps) powr (- 1 / 2) - 1000 * (1 / 100 - eps) powr (- 1 / 2))
              / (2 * eps)"
  let ?N = "(1000 - 1000 * (1 - eps) powr (- 1 / 2)) / eps"
  have t: "pcnwLowSw' scenario_finalized = 1 / 100"
    by simp
  have range: "0 < pcnwLowSw' scenario_finalized - eps" "pcnwLowSw' scenario_finalized + eps < 1"
    by (simp_all add: eps_def)
  have l: "DynamicWa_twoPhaseSatPcnw scenario_finalized (1 / 100) 3 = Inr (Some (250000 / 13))"
    and h: "DynamicWa_twoPhaseSatPcnw scenario_finalized 1 3 = Inr (Some (151000 / 31))"
    using hundredth_powr by (simp_all add: raw_pcnw_eval)
  have a: "DynamicWa_twoPhaseSatPcnw scenario_finalized (1 / 100 + eps) 3 = Inr (Some ?A)"
    and b: "DynamicWa_twoPhaseSatPcnw scenario_finalized (1 / 100 - eps) 3 = Inr (Some ?B)"
    and c: "DynamicWa_twoPhaseSatPcnw scenario_finalized (1 - eps) 3 = Inr (Some ?C)"
    by (simp_all add: raw_pcnw_eval eps_def)
  have L: "pcnwLow scenario_finalized = Inr (Some 10000)"
    and H: "pcnwHigh scenario_finalized = Inr (Some 1000)"
    using finalize_result(11,13) [OF scenario_finalized] hundredth_powr
    by (simp_all add: raw_pcnw_eval)
  have M: "pcnwSlopeLow scenario_finalized = Inr (Some ?M)"
    and N: "pcnwSlopeHigh scenario_finalized = Inr (Some ?N)"
    using finalize_result(12,14) [OF scenario_finalized]
    by (simp_all add: dPcnw_dSw_eq raw_pcnw_eval diff_quotient_def fdiv_def eps_def)
  show ?thesis
    using extrapolation_follows_Wa [OF scenario_finalized,
        where Sw = 0 and Wa = 3 and l = "250000 / 13" and a = ?A and b = ?B
          and L = 10000 and M = ?M]
      extrapolation_follows_Wa [OF scenario_finalized,
        where Sw = 2 and Wa = 3 and h = "151000 / 31" and c = ?C and H = 1000 and N = ?N]
      scenario_finalized range l h a b c L H M N
    unfolding Let_def t by simp
qed


text \<open>
  Claim C1 as stated fails for \<open>Wa \<noteq> 0\<close>. In the finalized scenario, at the threshold
  \<open>Sw = 0.01\<close> and \<open>Wa = 1\<close>, the regularized capillary pressure is \<open>150000/11\<close>, while
  the line of the stored values gives \<open>pcnwLow = 10000\<close>.
\<close>

theorem precomputed_extrapolation_counterexample:
  "RegularizedDynamicWaParams_finalize scenario = Inr scenario_finalized
   \<and> pcnwLowSw scenario_finalized = Inr (1 / 100)
   \<and> RegularizedDynamicWa_twoPhaseSatPcnw scenario_finalized (1 / 100) 1
        = Inr (Some (150000 / 11))
   \<and> line_through (pcnwLow scenario_finalized) (pcnwSlopeLow scenario_finalized)
        (1 / 100 - 1 / 100) = Inr (Some 10000)"
proof -
  have "RegularizedDynamicWa_twoPhaseSatPcnw scenario_finalized (1 / 100) 1
        = Inr (Some (150000 / 11))"
    using hundredth_powr
    by (simp add: regularized_pcnw_low raw_pcnw_eval line_through_def diff_quotient_def
        fdiv_def eps_def)
  moreover have "pcnwLow scenario_finalized = Inr (Some 10000)"
    using finalize_result(11) [OF scenario_finalized] hundredth_powr
    by (simp add: raw_pcnw_eval)
  moreover have "\<exists>m. pcnwSlopeLow scenario_finalized = Inr (Some m)"
    using finalize_result(12) [OF scenario_finalized]
    by (simp add: dPcnw_dSw_eq raw_pcnw_eval diff_quotient_def fdiv_def eps_def) metis
  ultimately show ?thesis
    using scenario_finalized by (auto simp: line_through_def)
qed



section \<open>The sign of the low extrapolation\<close>

text \<open>
  Claim C9, as the code has it. On a store that \<open>finalize\<close> returned, with threshold
  \<open>t\<close>, and for \<open>Sw \<le> t\<close>: the regularized \<open>pc(Sw, Wa)\<close> is at least the regularized
  \<open>pc(t, Wa)\<close> whenever the raw curve, at the \<open>Wa\<close> of the call, does not rise across the
  threshold, that is raw \<open>pc(t + eps, Wa) \<le>\<close> raw \<open>pc(t - eps, Wa)\<close>. A positive entry
  pressure and a positive \<open>\<lambda>\<close> give that for \<open>Wa = 0\<close> (with \<open>\<beta> \<noteq> 0\<close>, \<open>0 < t - eps\<close> and
  \<open>t + eps \<le> 1\<close>, so that the three raw values are numbers).
\<close>

theorem extrapolation_monotone:
  assumes "RegularizedDynamicWaParams_finalize p0 = Inr p" and "Sw \<le> pcnwLowSw' p"
  shows "let t = pcnwLowSw' p; pc = DynamicWa_twoPhaseSatPcnw p in
     (pc t Wa = Inr (Some l) \<and> pc (t + eps) Wa = Inr (Some a) \<and> pc (t - eps) Wa = Inr (Some b)
        \<and> a \<le> b \<longrightarrow>
      value_le (RegularizedDynamicWa_twoPhaseSatPcnw p t Wa)
        (RegularizedDynamicWa_twoPhaseSatPcnw p Sw Wa))
   \<and> (0 < entryPressure' p \<and> 0 < lambda' p \<and> beta' p \<noteq> 0 \<and> 0 < t - eps \<and> t + eps \<le> 1 \<longrightarrow>
      value_le (RegularizedDynamicWa_twoPhaseSatPcnw p t 0)
        (RegularizedDynamicWa_twoPhaseSatPcnw p Sw 0))"
proof -
  let ?t = "pcnwLowSw' p"
  note fin = finalize_result(1) [OF assms(1)]
  have zero: "value_le (RegularizedDynamicWa_twoPhaseSatPcnw p ?t 0)
        (RegularizedDynamicWa_twoPhaseSatPcnw p Sw 0)"
    if pe: "0 < entryPressure' p" and lam: "0 < lambda' p" and "beta' p \<noteq> 0"
      and lo: "0 < ?t - eps" and hi: "?t + eps \<le> 1"
  proof -
    have raw0: "DynamicWa_twoPhaseSatPcnw p S 0
                  = Inr (Some (entryPressure' p * S powr (- 1 / lambda' p)))"
      if "0 < S" and "S \<le> 1" for S
      using that pe lam \<open>beta' p \<noteq> 0\<close> fin by (simp add: raw_pcnw_eval)
    have "(?t + eps) powr (- 1 / lambda' p) < (?t - eps) powr (- 1 / lambda' p)"
      using lam lo eps_bounds(1) by (intro powr_less_mono2_neg) simp_all
    then have "entryPressure' p * (?t + eps) powr (- 1 / lambda' p)
                 \<le> entryPressure' p * (?t - eps) powr (- 1 / lambda' p)"
      using pe by simp
    then show ?thesis
      using lo hi eps_bounds(1)
      by (intro extrapolation_sign [OF fin assms(2) raw0 raw0 raw0]) simp_all
  qed
  show ?thesis
    unfolding Let_def using extrapolation_sign [OF fin assms(2)] zero by blast
qed

theorem extrapolation_monotone_witness:
  "RegularizedDynamicWaParams_finalize scenario = Inr scenario_finalized
   \<and> 9 / 1000 \<le> pcnwLowSw' scenario_finalized
   \<and> DynamicWa_twoPhaseSatPcnw scenario_finalized (1 / 100) 0 = Inr (Some 10000)
   \<and> DynamicWa_twoPhaseSatPcnw scenario_finalized (1 / 100 + eps) 0
        = Inr (Some (1000 * (1 / 100 + eps) powr (- 1 / 2)))
   \<and> DynamicWa_twoPhaseSatPcnw scenario_finalized (1 / 100 - eps) 0
        = Inr (Some (1000 * (1 / 100 - eps) powr (- 1 / 2)))
   \<and> 1000 * (1 / 100 + eps) powr (- 1 / 2) \<le> 1000 * (1 / 100 - eps) powr (- 1 / 2)
   \<and> 0 < entryPressure' scenario_finalized \<and> 0 < lambda' scenario_finalized
   \<and> beta' scenario_finalized \<noteq> 0
   \<and> 0 < pcnwLowSw' scenario_finalized - eps \<and> pcnwLowSw' scenario_finalized + eps \<le> 1
   \<and> value_le (RegularizedDynamicWa_twoPhaseSatPcnw scenario_finalized (1 / 100) 0)
        (RegularizedDynamicWa_twoPhaseSatPcnw scenario_finalized (9 / 1000) 0)"
proof -
  have l: "DynamicWa_twoPhaseSatPcnw scenario_finalized (1 / 100) 0 = Inr (Some 10000)"
    using hundredth_powr by (simp add: raw_pcnw_eval)
  have a: "DynamicWa_twoPhaseSatPcnw scenario_finalized (1 / 100 + eps) 0
        = Inr (Some (1000 * (1 / 100 + eps) powr (- 1 / 2)))"
    and b: "DynamicWa_twoPhaseSatPcnw scenario_finalized (1 / 100 - eps) 0
        = Inr (Some (1000 * (1 / 100 - eps) powr (- 1 / 2)))"
    by (simp_all add: raw_pcnw_eval eps_def)
  have "(1 / 100 + eps) powr (- 1 / 2) < (1 / 100 - eps) powr (- 1 / 2)"
    by (intro powr_less_mono2_neg) (simp_all add: eps_def)
  then have ab: "1000 * (1 / 100 + eps) powr (- 1 / 2) \<le> 1000 * (1 / 100 - eps) powr (- 1 / 2)"
    by simp
  have r: "0 < pcnwLowSw' scenario_finalized - eps" "pcnwLowSw' scenario_finalized + eps \<le> 1"
    by (simp_all add: eps_def)
  show ?thesis
    using extrapolation_monotone [OF scenario_finalized, of "9 / 1000" 0 10000
        "1000 * (1 / 100 + eps) powr (- 1 / 2)" "1000 * (1 / 100 - eps) powr (- 1 / 2)"]
      scenario_finalized l a b ab r
    by (simp add: Let_def)
qed

text \<open>
  Claim C9 as stated fails: a positive entry pressure and a positive \<open>\<lambda>\<close> do not make
  the extrapolation fall with \<open>Sw\<close> for every \<open>Wa\<close>. With entry pressure 1000, final
  entry pressure 11000, \<open>\<lambda> = 2\<close>, \<open>\<beta> = 0.1\<close>, threshold 0.01 and \<open>Wa = 3\<close> the raw curve
  rises across the threshold, and the regularized \<open>pc(0.009, 3)\<close> is below the
  regularized \<open>pc(0.01, 3) = 430000/13\<close>.
\<close>

theorem extrapolation_monotone_counterexample:
  "RegularizedDynamicWaParams_finalize steep = Inr steep_finalized
   \<and> 0 < entryPressure' steep_finalized \<and> 0 < lambda' steep_finalized
   \<and> 9 / 1000 < pcnwLowSw' steep_finalized
   \<and> RegularizedDynamicWa_twoPhaseSatPcnw steep_finalized (1 / 100) 3 = Inr (Some (430000 / 13))
   \<and> value_less (RegularizedDynamicWa_twoPhaseSatPcnw steep_finalized (9 / 1000) 3)
        (RegularizedDynamicWa_twoPhaseSatPcnw steep_finalized (1 / 100) 3)"
proof -
  let ?B = "\<lambda>S :: real. 1 + (11000 / 1000 - 1) * (S * 3) / (1 / 10 + S * 3)"
  let ?a = "1000 * (1 / 100 + eps) powr (- 1 / 2) * ?B (1 / 100 + eps)"
  let ?b = "1000 * (1 / 100 - eps) powr (- 1 / 2) * ?B (1 / 100 - eps)"
  have l: "DynamicWa_twoPhaseSatPcnw steep_finalized (pcnwLowSw' steep_finalized) 3
             = Inr (Some (430000 / 13))"
    using hundredth_powr by (simp add: raw_pcnw_eval)
  have a: "DynamicWa_twoPhaseSatPcnw steep_finalized (pcnwLowSw' steep_finalized + eps) 3
             = Inr (Some ?a)"
    by (simp add: raw_pcnw_eval eps_def)
  have b: "DynamicWa_twoPhaseSatPcnw steep_finalized (pcnwLowSw' steep_finalized - eps) 3
             = Inr (Some ?b)"
    by (simp add: raw_pcnw_eval eps_def)
  have "(1000 * ?B (1 / 100 - eps)) * (1 / 100 - eps) powr (- 1 / 2)
          < (1000 * ?B (1 / 100 + eps)) * (1 / 100 + eps) powr (- 1 / 2)"
    by (rule scaled_powr_neg_half_less) (simp_all add: eps_def power2_eq_square)
  then have ab: "?b < ?a"
    by (simp only: mult_ac)
  define m where "m = (?a - ?b) / (2 * eps)"
  have m: "0 < m"
    unfolding m_def using ab eps_bounds(1) by (intro divide_pos_pos) simp_all
  have "RegularizedDynamicWa_twoPhaseSatPcnw steep_finalized (9 / 1000) 3
          = Inr (Some (430000 / 13 + m * (9 / 1000 - pcnwLowSw' steep_finalized)))"
    unfolding m_def by (rule regularized_pcnw_low_value [OF _ _ l a b]) simp_all
  moreover have "RegularizedDynamicWa_twoPhaseSatPcnw steep_finalized (1 / 100) 3
          = Inr (Some (430000 / 13 + m * (1 / 100 - pcnwLowSw' steep_finalized)))"
    unfolding m_def by (rule regularized_pcnw_low_value [OF _ _ l a b]) simp_all
  ultimately show ?thesis
    using steep_finalized m by (simp add: value_less_def)
qed

section \<open>Finalize before use\<close>

text \<open>
  Claim C5. On a store that was never finalized (any store \<open>q\<close> whose flag is clear;
  in particular \<open>fresh\<close>, a default-constructed store after any sequence \<open>cs\<close> of
  setter calls) every guarded accessor fails with \<open>NotFinalized\<close>: \<open>entryPressure\<close>,
  \<open>finalEntryPressure\<close>, \<open>lambda\<close>, \<open>llambda\<close>, and on the regularized store
  \<open>pcnwLowSw\<close>, \<open>pcnwLow\<close>, \<open>pcnwSlopeLow\<close>, \<open>pcnwHigh\<close>, \<open>pcnwSlopeHigh\<close>. The
  accessors \<open>beta\<close>, \<open>eta\<close>, \<open>ei\<close>, \<open>ef\<close> return the member without a check, also
  before finalize. After \<open>finalize\<close>, of the base class or of the regularized store,
  every accessor returns the member unchanged, which is the value last set.
\<close>

theorem finalize_before_use:
  "let fresh = call_setters cs (RegularizedDynamicWaParams_default mem) in
     (\<not> finalized' q \<longrightarrow>
        entryPressure q = Inl NotFinalized \<and> finalEntryPressure q = Inl NotFinalized
        \<and> lambda q = Inl NotFinalized \<and> llambda q = Inl NotFinalized)
   \<and> \<not> finalized' fresh
   \<and> (guarded f \<longrightarrow> call_getter f fresh = Inl NotFinalized)
   \<and> pcnwLow fresh = Inl NotFinalized \<and> pcnwSlopeLow fresh = Inl NotFinalized
   \<and> pcnwHigh fresh = Inl NotFinalized \<and> pcnwSlopeHigh fresh = Inl NotFinalized
   \<and> (\<not> guarded f \<longrightarrow> call_getter f fresh = Inr (stored f fresh))
   \<and> (last_set f cs = Some v \<longrightarrow> stored f fresh = v)
   \<and> call_getter f (DynamicWaParams_finalize fresh) = Inr (stored f fresh)
   \<and> (RegularizedDynamicWaParams_finalize fresh = Inr p \<longrightarrow>
        call_getter f p = Inr (stored f fresh)
        \<and> pcnwLow p = Inr (pcnwLow' p) \<and> pcnwSlopeLow p = Inr (pcnwSlopeLow' p)
        \<and> pcnwHigh p = Inr (pcnwHigh' p) \<and> pcnwSlopeHigh p = Inr (pcnwSlopeHigh' p))"
proof -
  define fresh where "fresh = call_setters cs (RegularizedDynamicWaParams_default mem)"
  have nf: "\<not> finalized' fresh"
    by (simp add: fresh_def RegularizedDynamicWaParams_default_def DynamicWaParams_default_def)
  have 1: "\<not> finalized' q \<longrightarrow>
        entryPressure q = Inl NotFinalized \<and> finalEntryPressure q = Inl NotFinalized
        \<and> lambda q = Inl NotFinalized \<and> llambda q = Inl NotFinalized"
    by (simp add: entryPressure_def finalEntryPressure_def lambda_def llambda_def check_def)
  have 2: "pcnwLow fresh = Inl NotFinalized" "pcnwSlopeLow fresh = Inl NotFinalized"
    "pcnwHigh fresh = Inl NotFinalized" "pcnwSlopeHigh fresh = Inl NotFinalized"
    using nf by (simp_all add: pcnwLow_def pcnwSlopeLow_def pcnwHigh_def pcnwSlopeHigh_def
        check_def)
  have 3: "last_set f cs = Some v \<longrightarrow> stored f fresh = v"
    by (simp add: fresh_def stored_call_setters)
  have 4: "call_getter f (DynamicWaParams_finalize fresh) = Inr (stored f fresh)"
    by (simp add: call_getter_finalized)
  have 5: "call_getter f p = Inr (stored f fresh)
        \<and> pcnwLow p = Inr (pcnwLow' p) \<and> pcnwSlopeLow p = Inr (pcnwSlopeLow' p)
        \<and> pcnwHigh p = Inr (pcnwHigh' p) \<and> pcnwSlopeHigh p = Inr (pcnwSlopeHigh' p)"
    if "RegularizedDynamicWaParams_finalize fresh = Inr p"
    using finalize_result(1) [OF that] stored_finalize [OF that]
    by (simp add: call_getter_finalized)
  show ?thesis
    unfolding Let_def fresh_def [symmetric]
    using nf 1 2 3 4 5 call_getter_unfinalized [OF nf, of f] by simp
qed

theorem finalize_before_use_witness:
  "\<not> finalized' zeroed
   \<and> entryPressure zeroed = Inl NotFinalized \<and> finalEntryPressure zeroed = Inl NotFinalized
   \<and> lambda zeroed = Inl NotFinalized \<and> llambda zeroed = Inl NotFinalized
   \<and> guarded Lambda \<and> call_getter Lambda scenario = Inl NotFinalized
   \<and> pcnwLow scenario = Inl NotFinalized
   \<and> \<not> guarded Beta \<and> call_getter Beta scenario = Inr (1 / 10)
   \<and> last_set Lambda scenario_calls = Some 2
   \<and> call_getter Lambda (DynamicWaParams_finalize scenario) = Inr 2
   \<and> RegularizedDynamicWaParams_finalize scenario = Inr scenario_finalized
   \<and> call_getter Lambda scenario_finalized = Inr 2
   \<and> call_getter PcLowSw scenario_finalized = Inr (1 / 100)
   \<and> pcnwHigh scenario_finalized = Inr (Some 1000)"
proof -
  have h: "pcnwHigh' scenario_finalized = Some 1000"
    using finalize_result(13) [OF scenario_finalized] by (simp add: raw_pcnw_eval)
  have z: "\<not> finalized' zeroed"
    by (simp add: zeroed_def)
  have l: "last_set Lambda scenario_calls = Some 2" "last_set PcLowSw scenario_calls = Some (1 / 100)"
    by (simp_all add: scenario_calls_def)
  show ?thesis
    using finalize_before_use [of scenario_calls zeroed zeroed Lambda 2 scenario_finalized]
      finalize_before_use [of scenario_calls zeroed zeroed Beta "1 / 10" scenario_finalized]
      finalize_before_use [of scenario_calls zeroed zeroed PcLowSw "1 / 100" scenario_finalized]
      scenario_finalized h z l
    by (simp add: Let_def scenario_def [symmetric])
qed


end
